theory Spec2Isabelle
  imports Complex_Main
begin

section \<open>The survey extraction pipeline of the PDF processing function\<close>

text \<open>
  The program is the edge function that turns an uploaded PDF into survey response rows
  (\<^verbatim>\<open>supabase/functions/test-openai/index.ts\<close>, the second module of that file).
  Each definition below embeds one function of the source and keeps its name.

  Conventions of the embedding:
  \<^item> a JavaScript string is a \<^typ>\<open>string\<close>, one \<^typ>\<open>char\<close> per code unit; the code
    units are those below 256, so the white space of \<^verbatim>\<open>\s\<close> and of \<^verbatim>\<open>trim\<close> is
    tab, line feed, vertical tab, form feed, carriage return, space and no-break space;
  \<^item> a JavaScript number is \<^verbatim>\<open>NaN\<close>, an infinity, or a finite double given by its exact
    rational value; integers produced by \<^verbatim>\<open>parseInt\<close> are kept exact (the source rounds
    them above \<open>2^53\<close>, far beyond every bound the program compares with);
  \<^item> a property value read from a parsed response object is absent (\<^verbatim>\<open>undefined\<close>),
    \<^verbatim>\<open>null\<close>, a number or a string: the types the extraction schema asks the language
    model for. Booleans, arrays and objects as property values are outside the model;
  \<^item> every \<^verbatim>\<open>throw\<close> of the source is a \<open>None\<close> or an \<open>Inl\<close> result, and every
    external call (HTTP, storage, database, clock) is an explicit outcome given to the
    model; each update of the upload row is either applied or refused, and the source
    does not look at which.
\<close>

subsection \<open>Characters and strings\<close>

definition is_space :: "char \<Rightarrow> bool" where
  \<comment> \<open>\<^verbatim>\<open>\s\<close>, and the characters \<^verbatim>\<open>trim\<close> removes\<close>
  "is_space c = (let n = (of_char c :: nat) in (9 \<le> n \<and> n \<le> 13) \<or> n = 32 \<or> n = 160)"

definition is_upper :: "char \<Rightarrow> bool" where
  "is_upper c = (let n = (of_char c :: nat) in 65 \<le> n \<and> n \<le> 90)"

definition is_lower :: "char \<Rightarrow> bool" where
  "is_lower c = (let n = (of_char c :: nat) in 97 \<le> n \<and> n \<le> 122)"

definition is_alpha :: "char \<Rightarrow> bool" where
  \<comment> \<open>\<^verbatim>\<open>[a-zA-Z]\<close>\<close>
  "is_alpha c = (is_upper c \<or> is_lower c)"

definition is_digit :: "char \<Rightarrow> bool" where
  \<comment> \<open>\<^verbatim>\<open>[0-9]\<close>\<close>
  "is_digit c = (let n = (of_char c :: nat) in 48 \<le> n \<and> n \<le> 57)"

definition is_word_char :: "char \<Rightarrow> bool" where
  \<comment> \<open>\<^verbatim>\<open>\w\<close>, the class that decides where \<^verbatim>\<open>\b\<close> holds\<close>
  "is_word_char c = (is_alpha c \<or> is_digit c \<or> c = CHR ''_'')"

definition trim :: "string \<Rightarrow> string" where
  \<comment> \<open>\<^verbatim>\<open>String.prototype.trim\<close>\<close>
  "trim s = rev (dropWhile is_space (rev (dropWhile is_space s)))"

definition lower_char :: "char \<Rightarrow> char" where
  \<comment> \<open>the lower-case form of a code unit below 256: the letters A to Z, and the
      capitals from 192 to 222 except the multiplication sign 215, move up by 32\<close>
  "lower_char c = (let n = (of_char c :: nat) in
     if (65 \<le> n \<and> n \<le> 90) \<or> (192 \<le> n \<and> n \<le> 222 \<and> n \<noteq> 215)
     then char_of (n + 32) else c)"

definition toLowerCase :: "string \<Rightarrow> string" where
  \<comment> \<open>\<^verbatim>\<open>String.prototype.toLowerCase\<close>\<close>
  "toLowerCase s = map lower_char s"

subsection \<open>Numbers and property values\<close>

datatype jsnum = NaN | NegInf | Fin rat | PosInf

fun js_lt :: "jsnum \<Rightarrow> jsnum \<Rightarrow> bool" where
  \<comment> \<open>the operator \<^verbatim>\<open><\<close> on numbers: false as soon as one side is NaN\<close>
  "js_lt NaN _ = False"
| "js_lt _ NaN = False"
| "js_lt NegInf NegInf = False"
| "js_lt NegInf _ = True"
| "js_lt (Fin a) (Fin b) = (a < b)"
| "js_lt (Fin a) PosInf = True"
| "js_lt (Fin a) NegInf = False"
| "js_lt PosInf _ = False"

definition js_gt :: "jsnum \<Rightarrow> jsnum \<Rightarrow> bool" where
  \<comment> \<open>the operator \<^verbatim>\<open>>\<close>\<close>
  "js_gt a b = js_lt b a"

definition js_le :: "jsnum \<Rightarrow> jsnum \<Rightarrow> bool" where
  \<comment> \<open>the operator \<^verbatim>\<open><=\<close>: equal or less, and false as soon as one side is NaN\<close>
  "js_le a b = (a \<noteq> NaN \<and> b \<noteq> NaN \<and> (a = b \<or> js_lt a b))"

datatype jsval = JUndefined | JNull | JNum jsnum | JStr string

datatype 'a nullable = Undefined | Null | Val 'a

subsection \<open>parseInt\<close>

definition digit_value :: "char \<Rightarrow> nat option" where
  "digit_value c = (let n = (of_char c :: nat) in
     if 48 \<le> n \<and> n \<le> 57 then Some (n - 48)
     else if 97 \<le> n \<and> n \<le> 122 then Some (n - 87)
     else if 65 \<le> n \<and> n \<le> 90 then Some (n - 55)
     else None)"

definition is_radix_digit :: "nat \<Rightarrow> char \<Rightarrow> bool" where
  "is_radix_digit R c = (case digit_value c of None \<Rightarrow> False | Some d \<Rightarrow> d < R)"

definition digits_value :: "nat \<Rightarrow> string \<Rightarrow> nat" where
  "digits_value R z = foldl (\<lambda>acc c. acc * R + (case digit_value c of None \<Rightarrow> 0 | Some d \<Rightarrow> d)) 0 z"

definition has_hex_prefix :: "string \<Rightarrow> bool" where
  "has_hex_prefix s = (take 2 s = ''0x'' \<or> take 2 s = ''0X'')"

definition parseInt :: "string \<Rightarrow> jsnum" where
  \<comment> \<open>\<^verbatim>\<open>parseInt(string)\<close> with no radix argument: leading white space is skipped, one
      sign is read, a \<^verbatim>\<open>0x\<close> prefix selects radix 16, and the longest run of digits is
      the value; no digit at all is NaN\<close>
  "parseInt str =
    (let s = dropWhile is_space str;
         neg = (take 1 s = ''-'');
         s1 = (if take 1 s = ''-'' \<or> take 1 s = ''+'' then drop 1 s else s);
         R = (if has_hex_prefix s1 then 16 else 10);
         s2 = (if has_hex_prefix s1 then drop 2 s1 else s1);
         z = takeWhile (is_radix_digit R) s2
     in if z = [] then NaN
        else Fin (if neg then - of_nat (digits_value R z) else of_nat (digits_value R z)))"

subsection \<open>Field validators\<close>

definition validateRating :: "jsval \<Rightarrow> jsnum \<Rightarrow> jsnum \<Rightarrow> jsnum nullable" where
  "validateRating v lo hi =
    (if v = JNull \<or> v = JUndefined \<or> v = JStr [] then Null
     else let num = (case v of JStr s \<Rightarrow> parseInt s | JNum n \<Rightarrow> n | _ \<Rightarrow> NaN)
          in if num = NaN \<or> js_lt num lo \<or> js_gt num hi then Null else Val num)"

definition validateText :: "jsval \<Rightarrow> string nullable" where
  "validateText v =
    (case v of
       JStr s \<Rightarrow>
         if s = [] then Null
         else let cleaned = trim s
              in if length cleaned = 0 \<or> length cleaned > 1000 then Null else Val cleaned
     | _ \<Rightarrow> Null)"

definition email_char :: "char \<Rightarrow> bool" where
  \<comment> \<open>\<^verbatim>\<open>[^\s@]\<close>\<close>
  "email_char c = (\<not> is_space c \<and> c \<noteq> CHR ''@'')"

definition emailRegex_test :: "string \<Rightarrow> bool" where
  \<comment> \<open>\<^verbatim>\<open>/^[^\s@]+@[^\s@]+\.[^\s@]+$/.test(s)\<close>: the text before the first \<^verbatim>\<open>@\<close> is
      not empty and has no white space; the text after it has no white space and no
      \<^verbatim>\<open>@\<close>, and has a dot that is neither its first nor its last character\<close>
  "emailRegex_test s =
    (let localpart = takeWhile (\<lambda>c. c \<noteq> CHR ''@'') s;
         rest = dropWhile (\<lambda>c. c \<noteq> CHR ''@'') s;
         domainpart = drop 1 rest
     in localpart \<noteq> [] \<and> filter (\<lambda>c. \<not> email_char c) localpart = [] \<and> rest \<noteq> []
        \<and> filter (\<lambda>c. \<not> email_char c) domainpart = []
        \<and> CHR ''.'' \<in> set (butlast (drop 1 domainpart)))"

definition validateEmail :: "jsval \<Rightarrow> string nullable" where
  "validateEmail v =
    (case v of
       JStr s \<Rightarrow>
         if s = [] then Null
         else if emailRegex_test (trim s) then Val (toLowerCase (trim s)) else Null
     | _ \<Rightarrow> Null)"

subsection \<open>Survey responses\<close>

record SurveyResponse =
  course_name :: string
  response_date :: jsval
  q1_rating :: "jsnum nullable"
  q2_rating :: "jsnum nullable"
  q3_rating :: "jsnum nullable"
  q4_rating :: "jsnum nullable"
  q5_rating :: "jsnum nullable"
  q6_rating :: "jsnum nullable"
  q7_rating :: "jsnum nullable"
  q8_rating :: "jsnum nullable"
  q9_rating :: "jsnum nullable"
  q10_rating :: "jsnum nullable"
  q11_expectations :: "string nullable"
  q12_overall_rating :: "string nullable"
  learned_1 :: "string nullable"
  learned_2 :: "string nullable"
  learned_3 :: "string nullable"
  suggestions :: "string nullable"
  comments :: "string nullable"
  interested_more :: "string nullable"
  participant_name :: "string nullable"
  company :: "string nullable"
  email :: "string nullable"
  phone :: "string nullable"

definition blankResponse :: "string \<Rightarrow> SurveyResponse" where
  \<comment> \<open>the object literal \<^verbatim>\<open>{ course_name: courseName }\<close>: every other property absent\<close>
  "blankResponse courseName =
    \<lparr>course_name = courseName, response_date = JUndefined,
     q1_rating = Undefined, q2_rating = Undefined, q3_rating = Undefined,
     q4_rating = Undefined, q5_rating = Undefined, q6_rating = Undefined,
     q7_rating = Undefined, q8_rating = Undefined, q9_rating = Undefined,
     q10_rating = Undefined, q11_expectations = Undefined, q12_overall_rating = Undefined,
     learned_1 = Undefined, learned_2 = Undefined, learned_3 = Undefined,
     suggestions = Undefined, comments = Undefined, interested_more = Undefined,
     participant_name = Undefined, company = Undefined, email = Undefined,
     phone = Undefined\<rparr>"

definition is_present :: "'a nullable \<Rightarrow> bool" where
  \<comment> \<open>\<^verbatim>\<open>x !== null && x !== undefined\<close>\<close>
  "is_present x = (x \<noteq> Null \<and> x \<noteq> Undefined)"

definition trimmed_longer :: "nat \<Rightarrow> string nullable \<Rightarrow> bool" where
  \<comment> \<open>\<^verbatim>\<open>text && text.trim().length > n\<close>: the empty string is falsy\<close>
  "trimmed_longer n x = (case x of Val s \<Rightarrow> s \<noteq> [] \<and> length (trim s) > n | _ \<Rightarrow> False)"

definition hasMeaningfulSurveyData :: "SurveyResponse \<Rightarrow> bool" where
  "hasMeaningfulSurveyData response =
    (let hasRatings = list_ex is_present
           [q1_rating response, q2_rating response, q3_rating response,
            q4_rating response, q5_rating response, q6_rating response,
            q7_rating response, q8_rating response, q9_rating response,
            q10_rating response];
         hasTextResponses = list_ex (trimmed_longer 5)
           [learned_1 response, learned_2 response, learned_3 response,
            suggestions response, comments response, q11_expectations response,
            q12_overall_rating response];
         hasContactInfo = list_ex (trimmed_longer 0)
           [participant_name response, company response, email response, phone response]
     in hasRatings \<or> hasTextResponses \<or> hasContactInfo)"

subsection \<open>Parsed language-model output\<close>

type_synonym jsobject = "(string \<times> jsval) list"

definition get_prop :: "jsobject \<Rightarrow> string \<Rightarrow> jsval" where
  \<comment> \<open>reading a property: an absent one is \<^verbatim>\<open>undefined\<close>\<close>
  "get_prop obj k = (case map_of obj k of None \<Rightarrow> JUndefined | Some v \<Rightarrow> v)"

datatype element =
    EObject jsobject  \<comment> \<open>an object with its properties\<close>
  | EArray            \<comment> \<open>a nested array: \<^verbatim>\<open>typeof\<close> says object, no field is present\<close>
  | ENull
  | EPrimitive        \<comment> \<open>a number, string or boolean\<close>

datatype member =
    MArray "element list"  \<comment> \<open>the property holds an array\<close>
  | MTruthy                \<comment> \<open>the property holds a truthy value that is no array\<close>
  | MFalsy                 \<comment> \<open>the property is absent or falsy\<close>

datatype parsed =
    PArray "element list"
  | PObject jsobject member member
      \<comment> \<open>an object: its scalar properties, its \<^verbatim>\<open>responses\<close> and its \<^verbatim>\<open>surveys\<close>\<close>
  | PNull
  | PPrimitive

definition truthy :: "jsval \<Rightarrow> bool" where
  "truthy v = (case v of JStr s \<Rightarrow> s \<noteq> [] | JNum n \<Rightarrow> n \<noteq> NaN \<and> n \<noteq> Fin 0 | _ \<Rightarrow> False)"

definition is_object :: "element \<Rightarrow> bool" where
  \<comment> \<open>\<^verbatim>\<open>response && typeof response === 'object'\<close>\<close>
  "is_object e = (case e of EObject _ \<Rightarrow> True | EArray \<Rightarrow> True | _ \<Rightarrow> False)"

definition get_field :: "element \<Rightarrow> string \<Rightarrow> jsval" where
  "get_field e k = (case e of EObject obj \<Rightarrow> get_prop obj k | _ \<Rightarrow> JUndefined)"

definition normalizeResponse :: "string \<Rightarrow> element \<Rightarrow> SurveyResponse" where
  \<comment> \<open>the callback of \<^verbatim>\<open>.map\<close>, the same in the text and in the vision variant\<close>
  "normalizeResponse courseName response =
    \<lparr>course_name = courseName,
     response_date = (if truthy (get_field response ''response_date'')
                      then get_field response ''response_date'' else JNull),
     q1_rating = validateRating (get_field response ''q1_rating'') (Fin 1) (Fin 5),
     q2_rating = validateRating (get_field response ''q2_rating'') (Fin 1) (Fin 5),
     q3_rating = validateRating (get_field response ''q3_rating'') (Fin 1) (Fin 5),
     q4_rating = validateRating (get_field response ''q4_rating'') (Fin 1) (Fin 5),
     q5_rating = validateRating (get_field response ''q5_rating'') (Fin 1) (Fin 5),
     q6_rating = validateRating (get_field response ''q6_rating'') (Fin 1) (Fin 5),
     q7_rating = validateRating (get_field response ''q7_rating'') (Fin 1) (Fin 5),
     q8_rating = validateRating (get_field response ''q8_rating'') (Fin 1) (Fin 5),
     q9_rating = validateRating (get_field response ''q9_rating'') (Fin 1) (Fin 5),
     q10_rating = validateRating (get_field response ''q10_rating'') (Fin 0) (Fin 10),
     q11_expectations = validateText (get_field response ''q11_expectations''),
     q12_overall_rating = validateText (get_field response ''q12_overall_rating''),
     learned_1 = validateText (get_field response ''learned_1''),
     learned_2 = validateText (get_field response ''learned_2''),
     learned_3 = validateText (get_field response ''learned_3''),
     suggestions = validateText (get_field response ''suggestions''),
     comments = validateText (get_field response ''comments''),
     interested_more = validateText (get_field response ''interested_more''),
     participant_name = validateText (get_field response ''participant_name''),
     company = validateText (get_field response ''company''),
     email = validateEmail (get_field response ''email''),
     phone = validateText (get_field response ''phone'')\<rparr>"

definition validResponses :: "string \<Rightarrow> element list \<Rightarrow> SurveyResponse list" where
  \<comment> \<open>\<^verbatim>\<open>responses.filter(..).map(..).filter(hasMeaningfulSurveyData)\<close>\<close>
  "validResponses courseName responses =
    filter hasMeaningfulSurveyData (map (normalizeResponse courseName) (filter is_object responses))"

subsection \<open>Numeric strings, in the words of the specification\<close>

definition numeric_string_value :: "string \<Rightarrow> rat option" where
  \<comment> \<open>Not a function of the source: the specification's ``numeric string'' and the number
      it denotes, for decimal numerals: an optional minus sign, digits, and optionally a
      dot followed by digits.\<close>
  "numeric_string_value str =
    (let neg = (take 1 str = ''-'');
         s = (if neg then drop 1 str else str);
         ip = takeWhile is_digit s;
         r = dropWhile is_digit s;
         fp = drop 1 r
     in if ip = [] then None
        else if r = [] then
          Some (if neg then - of_nat (digits_value 10 ip) else of_nat (digits_value 10 ip))
        else if take 1 r = ''.'' \<and> fp \<noteq> [] \<and> filter (\<lambda>c. \<not> is_digit c) fp = [] then
          Some (if neg
                then - (of_nat (digits_value 10 ip) + of_nat (digits_value 10 fp) / 10 ^ length fp)
                else of_nat (digits_value 10 ip) + of_nat (digits_value 10 fp) / 10 ^ length fp)
        else None)"

definition truncate_rat :: "rat \<Rightarrow> rat" where
  \<comment> \<open>rounding toward zero\<close>
  "truncate_rat q = (if q < 0 then - of_int \<lfloor>- q\<rfloor> else of_int \<lfloor>q\<rfloor>)"

subsection \<open>Detection of scanned documents\<close>

fun runs :: "(char \<Rightarrow> bool) \<Rightarrow> string \<Rightarrow> string \<Rightarrow> string list" where
  \<comment> \<open>the maximal runs of characters of a class, in order; \<open>cur\<close> is the run being read,
      reversed. Empty runs are produced between two characters outside the class.\<close>
  "runs P cur [] = [rev cur]"
| "runs P cur (c # cs) = (if P c then runs P (c # cur) cs else rev cur # runs P [] cs)"

definition readable_matches :: "string \<Rightarrow> string list" where
  \<comment> \<open>\<^verbatim>\<open>rawText.match(/[a-zA-Z\s]{3,}/g) || []\<close>: the quantifier is greedy, so the matches
      are the maximal runs of letters and white space that have at least 3 characters\<close>
  "readable_matches rawText =
     filter (\<lambda>m. length m \<ge> 3) (runs (\<lambda>c. is_alpha c \<or> is_space c) [] rawText)"

definition readableTextRatio :: "string \<Rightarrow> jsnum" where
  \<comment> \<open>\<^verbatim>\<open>matches.join('').length / rawText.length\<close>; \<open>0 / 0\<close> is NaN\<close>
  "readableTextRatio rawText =
     (if length rawText = 0 then NaN
      else Fin (of_nat (length (concat (readable_matches rawText))) / of_nat (length rawText)))"

fun str_includes :: "string \<Rightarrow> string \<Rightarrow> bool" where
  \<comment> \<open>\<^verbatim>\<open>text.includes(sub)\<close>\<close>
  "str_includes [] sub = (sub = [])"
| "str_includes (c # cs) sub = (take (length sub) (c # cs) = sub \<or> str_includes cs sub)"

definition hasEncodedData :: "string \<Rightarrow> bool" where
  "hasEncodedData rawText =
     (str_includes rawText ''DCTDecode'' \<or> str_includes rawText ''stream''
      \<or> str_includes rawText ''endobj'' \<or> str_includes rawText ''XObject'')"

definition word_matches :: "string \<Rightarrow> string list" where
  \<comment> \<open>\<^verbatim>\<open>rawText.match(/\b[a-zA-Z]{4,}\b/g) || []\<close>: a match starts and ends at a word
      boundary and holds letters only, so it is a maximal run of word characters
      (\<^verbatim>\<open>\w\<close>) that consists of at least 4 letters and of nothing else\<close>
  "word_matches rawText =
     filter (\<lambda>m. length m \<ge> 4 \<and> filter (\<lambda>c. \<not> is_alpha c) m = [])
            (runs is_word_char [] rawText)"

definition hasActualWords :: "string \<Rightarrow> bool" where
  \<comment> \<open>\<^verbatim>\<open>(rawText.match(..) || []).length > 50 // At least 50 real words\<close>\<close>
  "hasActualWords rawText = (length (word_matches rawText) > 50)"

definition isLikelyScanned :: "string \<Rightarrow> bool" where
  "isLikelyScanned rawText = (hasEncodedData rawText \<and> \<not> hasActualWords rawText)"

definition usesVisionPath :: "string \<Rightarrow> bool" where
  \<comment> \<open>the condition \<^verbatim>\<open>readableTextRatio < 0.3 || isLikelyScanned\<close>. The quotient and
      \<^verbatim>\<open>0.3\<close> are doubles in the source; for a text of fewer than \<open>2^50\<close> characters
      comparing them agrees with comparing the exact quotient with \<open>3/10\<close>.\<close>
  "usesVisionPath rawText =
     (js_lt (readableTextRatio rawText) (Fin (3 / 10)) \<or> isLikelyScanned rawText)"

definition spec_hasActualWords :: "string \<Rightarrow> bool" where
  \<comment> \<open>Not a function of the source: the specification's and the source comment's
      ``at least 50'' words.\<close>
  "spec_hasActualWords rawText = (length (word_matches rawText) \<ge> 50)"

definition spec_classifiedScanned :: "string \<Rightarrow> bool" where
  \<comment> \<open>Not a function of the source: the decision rule as the specification words it.\<close>
  "spec_classifiedScanned rawText =
     (js_lt (readableTextRatio rawText) (Fin (3 / 10))
      \<or> (hasEncodedData rawText \<and> \<not> spec_hasActualWords rawText))"

subsection \<open>Form segmentation\<close>

text \<open>
  The eighteen separator patterns enter through their effect: a separator is the function
  \<^verbatim>\<open>section => section.split(pattern)\<close>. The segmentation below is the source's control
  flow over any list of such functions.
\<close>

type_synonym separator = "string \<Rightarrow> string list"

definition apply_separator :: "separator \<Rightarrow> string list \<Rightarrow> string list" where
  \<comment> \<open>one round of the \<^verbatim>\<open>for (const separator of separators)\<close> loop\<close>
  "apply_separator split sections =
     (let newSections =
            concat (map (\<lambda>section. filter (\<lambda>part. length (trim part) > 50) (split section))
                        sections)
      in if length newSections > length sections \<and> length newSections \<le> 50
         then newSections else sections)"

fun merge_sections :: "string list \<Rightarrow> string \<Rightarrow> string list \<Rightarrow> string list \<times> string" where
  \<comment> \<open>the merging loop: the sections still to read, \<^verbatim>\<open>currentSection\<close>,
      \<^verbatim>\<open>mergedSections\<close>\<close>
  "merge_sections [] currentSection mergedSections = (mergedSections, currentSection)"
| "merge_sections (section # rest) currentSection mergedSections =
     (if length currentSection + length section < 1500
      then merge_sections rest (currentSection @ '' '' @ section) mergedSections
      else merge_sections rest section
             (if length (trim currentSection) > 50
              then mergedSections @ [trim currentSection] else mergedSections))"

definition splitIntoFormSections :: "separator list \<Rightarrow> string \<Rightarrow> string list" where
  "splitIntoFormSections separators text =
     (let sections = foldl (\<lambda>sections split. apply_separator split sections) [text] separators;
          sections' =
            (if length sections > 15
             then (case merge_sections sections [] [] of
                     (mergedSections, currentSection) \<Rightarrow>
                       if length (trim currentSection) > 50
                       then mergedSections @ [trim currentSection] else mergedSections)
             else sections)
      in take 50 sections')"

subsection \<open>The heuristic path\<close>

definition extractSurveyDataEnhanced :: "string \<Rightarrow> string \<Rightarrow> SurveyResponse" where
  \<comment> \<open>The body builds \<^verbatim>\<open>{ course_name: courseName }\<close> and returns it; where the
      extraction should be, the source has the comments ``Add basic extraction logic
      here...'' and ``(Include the full implementation from the previous version)''.\<close>
  "extractSurveyDataEnhanced text courseName = blankResponse courseName"

fun collectForms :: "string \<Rightarrow> string list \<Rightarrow> SurveyResponse list" where
  \<comment> \<open>the loop over \<^verbatim>\<open>formSections\<close> that fills \<^verbatim>\<open>extractedForms\<close>\<close>
  "collectForms courseName [] = []"
| "collectForms courseName (formText # rest) =
     (let extractedData = extractSurveyDataEnhanced formText courseName
      in if hasMeaningfulSurveyData extractedData
         then extractedData # collectForms courseName rest
         else collectForms courseName rest)"

record document =
  structure_text :: string  \<comment> \<open>what \<^verbatim>\<open>extractTextFromPDFStructure\<close> returns for the bytes\<close>
  ocr_like_text :: string   \<comment> \<open>what \<^verbatim>\<open>extractTextWithOCRLike\<close> returns\<close>
  raw_text :: string        \<comment> \<open>what \<^verbatim>\<open>extractRawTextFromPDF\<close> returns\<close>

record text_functions =
  cleanAndNormalizeText :: "string \<Rightarrow> string"
  separators :: "separator list"

definition processPDFWithTraditionalMethods ::
  "text_functions \<Rightarrow> document \<Rightarrow> string \<Rightarrow> SurveyResponse list" where
  \<comment> \<open>The three extractors catch their own errors and return a string; nothing else in
      the body throws, and the \<^verbatim>\<open>catch\<close> would return the empty list.\<close>
  "processPDFWithTraditionalMethods tf doc courseName =
     (let t1 = structure_text doc;
          t2 = (if length t1 < 100 then ocr_like_text doc else t1);
          extractedText = (if length t2 < 50 then raw_text doc else t2)
      in if extractedText = [] \<or> length extractedText < 20 then []
         else let cleanedText = cleanAndNormalizeText tf extractedText;
                  formSections = splitIntoFormSections (separators tf) cleanedText
              in collectForms courseName formSections)"

subsection \<open>The language-model paths\<close>

datatype text_reply =
    FetchFailed      \<comment> \<open>\<^verbatim>\<open>fetch\<close> rejects: network failure\<close>
  | BodyUnreadable   \<comment> \<open>\<^verbatim>\<open>openaiResponse.json()\<close> rejects, or the body is \<^verbatim>\<open>null\<close>\<close>
  | NoContent        \<comment> \<open>\<^verbatim>\<open>result.choices?.[0]?.message?.content\<close> is missing or empty\<close>
  | ContentNotJson   \<comment> \<open>\<^verbatim>\<open>JSON.parse(aiResponse)\<close> throws\<close>
  | Content parsed   \<comment> \<open>the parsed content\<close>

definition responsesOf :: "parsed \<Rightarrow> element list option" where
  \<comment> \<open>``Handle different response formats''; reading \<^verbatim>\<open>.responses\<close> of \<^verbatim>\<open>null\<close> throws\<close>
  "responsesOf parsedData =
     (case parsedData of
        PArray xs \<Rightarrow> Some xs
      | PNull \<Rightarrow> None
      | PPrimitive \<Rightarrow> Some [EPrimitive]
      | PObject props responses surveys \<Rightarrow>
          (case responses of
             MArray xs \<Rightarrow> Some xs
           | _ \<Rightarrow> (case surveys of
                     MArray ys \<Rightarrow> Some ys
                   | _ \<Rightarrow> Some [EObject props])))"

definition llmTextExtraction :: "string \<Rightarrow> text_reply \<Rightarrow> SurveyResponse list option" where
  \<comment> \<open>the text branch inside the \<^verbatim>\<open>try\<close> of \<^verbatim>\<open>processPDFWithOpenAI\<close>; \<open>None\<close> is an
      exception that reaches its outer \<^verbatim>\<open>catch\<close>\<close>
  "llmTextExtraction courseName reply =
     (case reply of
        Content parsedData \<Rightarrow>
          (case responsesOf parsedData of
             None \<Rightarrow> None
           | Some responses \<Rightarrow> Some (validResponses courseName responses))
      | _ \<Rightarrow> None)"

datatype page_reply =
    PageFetchFailed     \<comment> \<open>\<^verbatim>\<open>fetch\<close> rejects\<close>
  | PageHttpError bool  \<comment> \<open>\<^verbatim>\<open>!openaiResponse.ok\<close>; the flag: the error body is readable JSON\<close>
  | PageBodyUnreadable  \<comment> \<open>\<^verbatim>\<open>openaiResponse.json()\<close> rejects\<close>
  | PageNoChoices       \<comment> \<open>\<^verbatim>\<open>result.choices\<close> is missing: \<^verbatim>\<open>result.choices[0]\<close> throws\<close>
  | PageContentNotJson  \<comment> \<open>the content is missing or \<^verbatim>\<open>JSON.parse(content)\<close> throws\<close>
  | PageContent parsed  \<comment> \<open>the parsed content\<close>

definition pageResponses :: "string \<Rightarrow> parsed \<Rightarrow> SurveyResponse list" where
  \<comment> \<open>the body of the inner \<^verbatim>\<open>try\<close>: only \<^verbatim>\<open>pageData.responses\<close> is looked at; for
      \<^verbatim>\<open>null\<close> the read throws and the inner \<^verbatim>\<open>catch\<close> logs it\<close>
  "pageResponses courseName pageData =
     (case pageData of
        PObject props (MArray responses) surveys \<Rightarrow> validResponses courseName responses
      | _ \<Rightarrow> [])"

fun visionPages ::
  "string \<Rightarrow> page_reply list \<Rightarrow> SurveyResponse list \<Rightarrow> SurveyResponse list option" where
  \<comment> \<open>the loop over the page images, with \<^verbatim>\<open>allExtractedData\<close>; \<open>None\<close> is an
      exception leaving the loop\<close>
  "visionPages courseName [] allExtractedData = Some allExtractedData"
| "visionPages courseName (page # rest) allExtractedData =
     (case page of
        PageFetchFailed \<Rightarrow> None
      | PageHttpError readable \<Rightarrow>
          if readable then visionPages courseName rest allExtractedData else None
      | PageBodyUnreadable \<Rightarrow> None
      | PageNoChoices \<Rightarrow> None
      | PageContentNotJson \<Rightarrow> visionPages courseName rest allExtractedData
      | PageContent pageData \<Rightarrow>
          visionPages courseName rest (allExtractedData @ pageResponses courseName pageData))"

definition processPDFWithOpenAIVision ::
  "string \<Rightarrow> page_reply list option \<Rightarrow> SurveyResponse list option" where
  \<comment> \<open>the argument is one reply per page image, or \<open>None\<close> when \<^verbatim>\<open>convertPDFToImages\<close>
      throws; the \<^verbatim>\<open>catch\<close> rethrows\<close>
  "processPDFWithOpenAIVision courseName images =
     (case images of None \<Rightarrow> None | Some pages \<Rightarrow> visionPages courseName pages [])"

record llm_replies =
  text_reply :: text_reply
  page_replies :: "page_reply list option"

definition processPDFWithOpenAI ::
  "text_functions \<Rightarrow> llm_replies \<Rightarrow> document \<Rightarrow> string \<Rightarrow> SurveyResponse list" where
  "processPDFWithOpenAI tf llm doc courseName =
     (let rawText = raw_text doc;
          attempt = (if usesVisionPath rawText
                     then processPDFWithOpenAIVision courseName (page_replies llm)
                     else llmTextExtraction courseName (text_reply llm))
      in case attempt of
           Some responses \<Rightarrow> responses
         | None \<Rightarrow> processPDFWithTraditionalMethods tf doc courseName)"

subsection \<open>The request handler\<close>

datatype status = Pending | Processing | Completed | Failed

record course_upload =
  upload_course_name :: string
  file_url :: string
  processing_status :: status
  total_forms :: nat
  processed_forms :: nat

record database =
  course_uploads :: "string \<Rightarrow> course_upload option"
  survey_responses :: "(string \<times> SurveyResponse) list"

datatype download_outcome = DownloadError | NoData | Data document

datatype run_error =
    MissingUploadId | UploadNotFound | NoFileUrl | InvalidFileUrl
  | DownloadFailed | NoPdfData | InsertError

record run_env =
  req_uploadId :: string       \<comment> \<open>empty when the request has none\<close>
  req_fileUrl :: string        \<comment> \<open>empty when the request has none\<close>
  select_fails :: bool         \<comment> \<open>the query for the upload row reports an error\<close>
  openai_api_key :: string     \<comment> \<open>from the creator's settings; empty when there is none\<close>
  storage_path :: "string \<Rightarrow> string option"
     \<comment> \<open>the second part of the URL when splitting it at the bucket prefix gives two parts\<close>
  download :: download_outcome
     \<comment> \<open>what \<^verbatim>\<open>storage.from('survey-pdfs').download(filePath)\<close> gives\<close>
  llm :: llm_replies
  insert_fails :: bool
  today :: string              \<comment> \<open>\<^verbatim>\<open>new Date().toISOString().split('T')[0]\<close>\<close>
  text_fns :: text_functions

definition update_upload :: "string \<Rightarrow> (course_upload \<Rightarrow> course_upload) \<Rightarrow> database \<Rightarrow> database" where
  \<comment> \<open>\<^verbatim>\<open>.from('course_uploads').update(..).eq('id', uploadId)\<close>\<close>
  "update_upload uploadId f db =
     (case course_uploads db uploadId of
        None \<Rightarrow> db
      | Some row \<Rightarrow> db\<lparr>course_uploads := (course_uploads db)(uploadId \<mapsto> f row)\<rparr>)"

definition fetchDocument :: "run_env \<Rightarrow> database \<Rightarrow> run_error + (course_upload \<times> document)" where
  \<comment> \<open>from ``Get upload details'' to the downloaded buffer; \<open>Inl\<close> is a \<^verbatim>\<open>throw\<close>\<close>
  "fetchDocument env db =
     (case (if select_fails env then None else course_uploads db (req_uploadId env)) of
        None \<Rightarrow> Inl UploadNotFound
      | Some upload \<Rightarrow>
          let fileUrl = (if req_fileUrl env \<noteq> [] then req_fileUrl env else file_url upload)
          in if fileUrl = [] then Inl NoFileUrl
             else case storage_path env fileUrl of
                    None \<Rightarrow> Inl InvalidFileUrl
                  | Some filePath \<Rightarrow>
                      (case download env of
                         DownloadError \<Rightarrow> Inl DownloadFailed
                       | NoData \<Rightarrow> Inl NoPdfData
                       | Data doc \<Rightarrow> Inr (upload, doc)))"

definition extractForms :: "run_env \<Rightarrow> document \<Rightarrow> string \<Rightarrow> SurveyResponse list" where
  \<comment> \<open>the choice of the path. The handler sets \<^verbatim>\<open>userSettings.openai_enabled = true\<close>
      just before (``Force OpenAI enabled for debugging''), so only the key decides.\<close>
  "extractForms env doc courseName =
     (let openai_enabled = True
      in if openai_enabled \<and> openai_api_key env \<noteq> []
         then processPDFWithOpenAI (text_fns env) (llm env) doc courseName
         else processPDFWithTraditionalMethods (text_fns env) doc courseName)"

definition placeholderForm :: "string \<Rightarrow> string \<Rightarrow> SurveyResponse" where
  "placeholderForm courseName date = (blankResponse courseName)\<lparr>response_date := JStr date\<rparr>"

record update_results =
  processing_applied :: bool  \<comment> \<open>the update to \<^verbatim>\<open>processing\<close> takes effect\<close>
  completed_applied :: bool   \<comment> \<open>the update to \<^verbatim>\<open>completed\<close> with the counts takes effect\<close>
  failed_applied :: bool      \<comment> \<open>the update to \<^verbatim>\<open>failed\<close> takes effect\<close>

definition issue_update ::
  "bool \<Rightarrow> string \<Rightarrow> (course_upload \<Rightarrow> course_upload) \<Rightarrow> database \<Rightarrow> database" where
  \<comment> \<open>\<^verbatim>\<open>await supabaseClient.from('course_uploads').update(..).eq('id', uploadId)\<close> with
      the result dropped: the client reports a refused update in the value it resolves to,
      so the run goes on and the row stays as it was\<close>
  "issue_update applied uploadId f db = (if applied then update_upload uploadId f db else db)"

definition serve_try :: "bool \<Rightarrow> run_env \<Rightarrow> database \<Rightarrow> run_error + (database \<times> nat)" where
  \<comment> \<open>the \<^verbatim>\<open>try\<close> block after the status update to processing; the flag is the outcome
      of the final update; \<open>Inr\<close> carries the database and \<^verbatim>\<open>formsProcessed\<close> of the
      success response\<close>
  "serve_try completed_ok env db =
     (case fetchDocument env db of
        Inl e \<Rightarrow> Inl e
      | Inr (upload, doc) \<Rightarrow>
          let extracted = extractForms env doc (upload_course_name upload);
              extractedForms =
                (if length extracted = 0
                 then extracted @ [placeholderForm (upload_course_name upload) (today env)]
                 else extracted);
              responsesToInsert = map (\<lambda>form. (req_uploadId env, form)) extractedForms
          in if insert_fails env then Inl InsertError
             else Inr (issue_update completed_ok (req_uploadId env)
                         (\<lambda>row. row\<lparr>processing_status := Completed,
                                    total_forms := length extractedForms,
                                    processed_forms := length extractedForms\<rparr>)
                         (db\<lparr>survey_responses := survey_responses db @ responsesToInsert\<rparr>),
                       length extractedForms))"

definition serve :: "update_results \<Rightarrow> run_env \<Rightarrow> database \<Rightarrow> database \<times> (run_error + nat)" where
  \<comment> \<open>the function given to \<^verbatim>\<open>Deno.serve\<close>, for one POST request: the database
      afterwards, and the error of the 500 response or \<^verbatim>\<open>formsProcessed\<close> of the 200
      response\<close>
  "serve u env db =
     (if req_uploadId env = [] then (db, Inl MissingUploadId)
      else let db1 = issue_update (processing_applied u) (req_uploadId env)
                       (\<lambda>row. row\<lparr>processing_status := Processing\<rparr>) db
           in case serve_try (completed_applied u) env db1 of
                Inl e \<Rightarrow>
                  (issue_update (failed_applied u) (req_uploadId env)
                     (\<lambda>row. row\<lparr>processing_status := Failed\<rparr>) db1, Inl e)
              | Inr (db2, formsProcessed) \<Rightarrow> (db2, Inr formsProcessed))"

definition handler_try :: "run_env \<Rightarrow> database \<Rightarrow> run_error + (database \<times> nat)" where
  \<comment> \<open>the \<^verbatim>\<open>try\<close> block when the final update is applied\<close>
  "handler_try env db = serve_try True env db"

definition handler :: "run_env \<Rightarrow> database \<Rightarrow> database \<times> (run_error + nat)" where
  \<comment> \<open>the request handler in a run whose row updates are all applied\<close>
  "handler env db =
     serve \<lparr>processing_applied = True, completed_applied = True, failed_applied = True\<rparr> env db"

subsection \<open>An invariant of the separator loop\<close>

definition sections_ok :: "string list \<Rightarrow> bool" where
  \<comment> \<open>what the separator loop maintains: there is a section, and as soon as there are
      several each one has more than 50 characters once trimmed\<close>
  "sections_ok sections =
     (sections \<noteq> [] \<and> (length sections > 1 \<longrightarrow> (\<forall>s\<in>set sections. 50 < length (trim s))))"

section \<open>Properties\<close>

subsection \<open>Auxiliary facts about strings and digits\<close>

lemma trim_Nil [simp]: "trim [] = []"
  by (simp add: trim_def)

lemma trimmed_longer_iff: "trimmed_longer n x \<longleftrightarrow> (\<exists>s. x = Val s \<and> n < length (trim s))"
  by (cases x) (auto simp: trimmed_longer_def)

lemma blankResponse_not_meaningful: "\<not> hasMeaningfulSurveyData (blankResponse c)"
  by (simp add: hasMeaningfulSurveyData_def blankResponse_def is_present_def trimmed_longer_def)

lemma is_radix_digit_10: "is_radix_digit 10 c = is_digit c"
  by (auto simp: is_radix_digit_def digit_value_def is_digit_def Let_def)

lemma digit_value_digit: "is_digit c \<Longrightarrow> \<exists>d<10. digit_value c = Some d"
  by (auto simp: digit_value_def is_digit_def Let_def)

lemma digits_value_lt: "\<forall>c\<in>set z. is_digit c \<Longrightarrow> digits_value 10 z < 10 ^ length z"
proof (induction z rule: rev_induct)
  case Nil
  then show ?case by (simp add: digits_value_def)
next
  case (snoc c z)
  then obtain d where d: "d < 10" "digit_value c = Some d"
    using digit_value_digit by auto
  from snoc have "digits_value 10 z < 10 ^ length z" by simp
  then have "digits_value 10 z * 10 + d < 10 ^ length z * 10"
    using d(1) by arith
  then show ?case using d by (simp add: digits_value_def)
qed

lemma digit_facts:
  assumes "is_digit c"
  shows "\<not> is_space c" "c \<noteq> CHR ''-''" "c \<noteq> CHR ''+''" "c \<noteq> CHR ''x''" "c \<noteq> CHR ''X''"
  using assms by (auto simp: is_digit_def is_space_def Let_def)

lemma dot_not_digit: "\<not> is_digit CHR ''.''"
  by (simp add: is_digit_def)

text \<open>
  \<^verbatim>\<open>parseInt\<close> on digits followed by nothing or by a dot reads exactly the digits.
\<close>

lemma parseInt_digits:
  assumes ip: "ip \<noteq> []" "\<forall>c\<in>set ip. is_digit c"
      and r: "r = [] \<or> take 1 r = ''.''"
  shows "parseInt (ip @ r) = Fin (of_nat (digits_value 10 ip))"
    and "parseInt (CHR ''-'' # ip @ r) = Fin (- of_nat (digits_value 10 ip))"
proof -
  obtain c cs where ipc: "ip = c # cs"
    using ip(1) by (cases ip) auto
  have c: "is_digit c" using ip(2) ipc by simp
  have nohex: "\<not> has_hex_prefix (ip @ r)"
  proof (cases cs)
    case Nil
    then show ?thesis using r ipc
      by (cases r) (auto simp: has_hex_prefix_def)
  next
    case (Cons d ds)
    then have "is_digit d" using ip(2) ipc by simp
    then show ?thesis using Cons ipc digit_facts(4,5) [of d]
      by (auto simp: has_hex_prefix_def)
  qed
  have tw: "takeWhile (is_radix_digit 10) (ip @ r) = ip"
  proof -
    have "takeWhile is_digit (ip @ r) = ip @ takeWhile is_digit r"
      using ip(2) by (simp add: takeWhile_append2)
    moreover have "takeWhile is_digit r = []"
      using r dot_not_digit by (cases r) auto
    ultimately show ?thesis by (simp add: is_radix_digit_10 [abs_def])
  qed
  show "parseInt (ip @ r) = Fin (of_nat (digits_value 10 ip))"
    using nohex tw ip(1) digit_facts [OF c] ipc
    by (simp add: parseInt_def Let_def)
  show "parseInt (CHR ''-'' # ip @ r) = Fin (- of_nat (digits_value 10 ip))"
    using nohex tw ip(1) digit_facts [OF c] ipc
    by (simp add: parseInt_def Let_def is_space_def)
qed

lemma truncate_mixed:
  fixes a f :: nat
  assumes "f < 10 ^ n"
  shows "truncate_rat (of_nat a + of_nat f / 10 ^ n) = of_nat a"
    and "truncate_rat (- (of_nat a + of_nat f / 10 ^ n)) = - of_nat a"
proof -
  let ?x = "(of_nat f / 10 ^ n) :: rat"
  have x0: "0 \<le> ?x" by simp
  have x1: "?x < 1" using assms
    by (simp add: of_nat_less_iff [of f "10 ^ n", where ?'a = rat, simplified])
  have fl: "\<lfloor>of_nat a + ?x\<rfloor> = int a"
    using x0 x1 by (simp add: floor_unique)
  have nn: "\<not> (of_nat a + ?x < 0)"
    using x0 by (metis add_nonneg_nonneg of_nat_0_le_iff not_less)
  show "truncate_rat (of_nat a + ?x) = of_nat a"
    unfolding truncate_rat_def using fl nn by (simp only: if_False of_int_of_nat_eq)
  show "truncate_rat (- (of_nat a + ?x)) = - of_nat a"
  proof (cases "of_nat a + ?x = 0")
    case True
    then have "a = 0" using x0
      by (metis add_nonneg_eq_0_iff of_nat_0_le_iff of_nat_eq_0_iff)
    then show ?thesis using True by (simp add: truncate_rat_def)
  next
    case False
    then have "0 < of_nat a + ?x" using x0
      by (metis add_nonneg_nonneg of_nat_0_le_iff order_less_le)
    then show ?thesis using fl by (simp add: truncate_rat_def)
  qed
qed

lemma parseInt_numeric:
  assumes "numeric_string_value s = Some q"
  shows "parseInt s = Fin (truncate_rat q)"
proof -
  define neg where "neg = (take 1 s = ''-'')"
  define t where "t = (if neg then drop 1 s else s)"
  define ip where "ip = takeWhile is_digit t"
  define r where "r = dropWhile is_digit t"
  define fp where "fp = drop 1 r"
  have t: "t = ip @ r" by (simp add: ip_def r_def)
  have s: "s = (if neg then CHR ''-'' # t else t)"
    unfolding t_def neg_def by (cases s) auto
  have ipd: "\<forall>c\<in>set ip. is_digit c"
    unfolding ip_def by (auto dest: set_takeWhileD)
  from assms have ip: "ip \<noteq> []"
    unfolding numeric_string_value_def Let_def neg_def [symmetric] t_def [symmetric]
      ip_def [symmetric] by (auto split: if_splits)
  from assms have shape:
    "(r = [] \<and> q = (if neg then - of_nat (digits_value 10 ip) else of_nat (digits_value 10 ip)))
     \<or> (take 1 r = ''.'' \<and> (\<forall>c\<in>set fp. is_digit c)
          \<and> q = (if neg
                 then - (of_nat (digits_value 10 ip) + of_nat (digits_value 10 fp) / 10 ^ length fp)
                 else of_nat (digits_value 10 ip) + of_nat (digits_value 10 fp) / 10 ^ length fp))"
    unfolding numeric_string_value_def Let_def neg_def [symmetric] t_def [symmetric]
      ip_def [symmetric] r_def [symmetric] fp_def [symmetric]
    by (auto split: if_splits simp: filter_empty_conv)
  have r: "r = [] \<or> take 1 r = ''.''" using shape by auto
  have p: "parseInt s = Fin (if neg then - of_nat (digits_value 10 ip) else of_nat (digits_value 10 ip))"
    using parseInt_digits [OF ip ipd r] s t by auto
  have "truncate_rat q = (if neg then - of_nat (digits_value 10 ip) else of_nat (digits_value 10 ip))"
  proof -
    have z: "truncate_rat (of_nat a) = of_nat a" "truncate_rat (- of_nat a) = - of_nat a"
      for a :: nat
      using truncate_mixed [of 0 0 a] by simp_all
    from shape show ?thesis
    proof
      assume "r = [] \<and> q = (if neg then - of_nat (digits_value 10 ip) else of_nat (digits_value 10 ip))"
      then show ?thesis using z by auto
    next
      assume a: "take 1 r = ''.'' \<and> (\<forall>c\<in>set fp. is_digit c)
          \<and> q = (if neg
                 then - (of_nat (digits_value 10 ip) + of_nat (digits_value 10 fp) / 10 ^ length fp)
                 else of_nat (digits_value 10 ip) + of_nat (digits_value 10 fp) / 10 ^ length fp)"
      then have "digits_value 10 fp < 10 ^ length fp"
        using digits_value_lt by blast
      from truncate_mixed [OF this] a show ?thesis by auto
    qed
  qed
  with p show ?thesis by simp
qed

lemma numeric_string_nonempty: "numeric_string_value s = Some q \<Longrightarrow> s \<noteq> []"
  by (auto simp: numeric_string_value_def)

lemma validateRating_number:
  "validateRating (JNum r) (Fin lo) (Fin hi) =
     (if js_le (Fin lo) r \<and> js_le r (Fin hi) then Val r else Null)"
  by (cases r) (auto simp: validateRating_def js_le_def js_gt_def)

lemma validateRating_string:
  "s \<noteq> [] \<Longrightarrow> validateRating (JStr s) lo hi = validateRating (JNum (parseInt s)) lo hi"
  by (simp add: validateRating_def)

subsection \<open>C1: the retention rule\<close>

lemma trim_idem: "trim (trim s) = trim s"
proof -
  define d where "d = dropWhile is_space s"
  define u where "u = dropWhile is_space (rev d)"
  have u: "dropWhile is_space u = u" by (simp add: u_def)
  have "dropWhile is_space (rev u) = rev u"
  proof (cases "u = []")
    case True
    then show ?thesis by simp
  next
    case False
    have "rev d = takeWhile is_space (rev d) @ u" by (simp add: u_def)
    then have "d = rev u @ rev (takeWhile is_space (rev d))"
      by (metis rev_append rev_rev_ident)
    then have "hd (rev u) = hd d" using False
      by (metis hd_append2 rev_is_Nil_conv)
    moreover have "d \<noteq> []" using False by (auto simp: u_def)
    then have "\<not> is_space (hd d)" unfolding d_def by (metis hd_dropWhile)
    ultimately have "\<not> is_space (hd (rev u))" by simp
    then show ?thesis by (simp add: dropWhile_eq_self_iff)
  qed
  then have "rev (dropWhile is_space (rev (dropWhile is_space (rev u)))) = rev u"
    using u by simp
  then show ?thesis by (simp add: trim_def u_def d_def)
qed

lemma validateText_trimmed: "validateText v = Val s \<Longrightarrow> trim s = s \<and> s \<noteq> []"
  by (cases v) (auto simp: validateText_def Let_def trim_idem split: if_splits)

lemma is_space_lower: "is_space (lower_char c) = is_space c"
  by (auto simp: is_space_def lower_char_def Let_def)

lemma trim_toLowerCase: "trim (toLowerCase s) = toLowerCase (trim s)"
proof -
  have "is_space \<circ> lower_char = is_space"
    using is_space_lower by (simp add: fun_eq_iff)
  then have dm: "dropWhile is_space (map lower_char xs) = map lower_char (dropWhile is_space xs)"
    for xs
    by (simp add: dropWhile_map)
  have "rev (dropWhile is_space (rev (dropWhile is_space (map lower_char s))))
          = map lower_char (rev (dropWhile is_space (rev (dropWhile is_space s))))"
    by (simp only: dm rev_map)
  then show ?thesis by (simp add: trim_def toLowerCase_def)
qed

lemma emailRegex_test_nonempty: "emailRegex_test s \<Longrightarrow> s \<noteq> []"
  by (auto simp: emailRegex_test_def)

lemma validateEmail_trimmed: "validateEmail v = Val s \<Longrightarrow> trim s = s \<and> s \<noteq> []"
proof (cases v)
  case (JStr x)
  assume a: "validateEmail v = Val s"
  with JStr have s: "s = toLowerCase (trim x)" and t: "emailRegex_test (trim x)"
    by (auto simp: validateEmail_def split: if_splits)
  have "trim s = s" using s by (simp add: trim_toLowerCase trim_idem)
  moreover have "s \<noteq> []" using s emailRegex_test_nonempty [OF t] by (simp add: toLowerCase_def)
  ultimately show ?thesis by simp
qed (auto simp: validateEmail_def)

lemma normalized_text_fields:
  assumes "Val s \<in> {learned_1 (normalizeResponse c e), learned_2 (normalizeResponse c e),
             learned_3 (normalizeResponse c e), suggestions (normalizeResponse c e),
             comments (normalizeResponse c e), q11_expectations (normalizeResponse c e),
             q12_overall_rating (normalizeResponse c e)}"
  shows "trim s = s"
  using assms validateText_trimmed
  by (simp add: normalizeResponse_def) metis

lemma normalized_contact_fields:
  assumes "Val s \<in> {participant_name (normalizeResponse c e), company (normalizeResponse c e),
             email (normalizeResponse c e), phone (normalizeResponse c e)}"
  shows "trim s = s \<and> s \<noteq> []"
  using assms validateText_trimmed validateEmail_trimmed
  by (simp add: normalizeResponse_def) metis

lemma hasMeaningfulSurveyData_iff:
  "hasMeaningfulSurveyData r \<longleftrightarrow>
      (is_present (q1_rating r) \<or> is_present (q2_rating r) \<or> is_present (q3_rating r) \<or>
       is_present (q4_rating r) \<or> is_present (q5_rating r) \<or> is_present (q6_rating r) \<or>
       is_present (q7_rating r) \<or> is_present (q8_rating r) \<or> is_present (q9_rating r) \<or>
       is_present (q10_rating r)) \<or>
      (\<exists>s. Val s \<in> {learned_1 r, learned_2 r, learned_3 r, suggestions r, comments r,
                     q11_expectations r, q12_overall_rating r} \<and> 5 < length (trim s)) \<or>
      (\<exists>s. Val s \<in> {participant_name r, company r, email r, phone r} \<and> 0 < length (trim s))"
  unfolding hasMeaningfulSurveyData_def Let_def
  by (simp add: trimmed_longer_iff ex_disj_distrib conj_disj_distribR eq_commute [of "Val _"])

text \<open>
  C1, as the code has it. \<^const>\<open>hasMeaningfulSurveyData\<close> is true exactly when one of the
  ten ratings is neither null nor undefined, or one of the seven text fields
  \<open>learned_1\<close>, \<open>learned_2\<close>, \<open>learned_3\<close>, \<open>suggestions\<close>, \<open>comments\<close>,
  \<open>q11_expectations\<close>, \<open>q12_overall_rating\<close> has more than 5 characters once white
  space is trimmed from both ends, or one of the four contact fields is not empty once
  trimmed. The field \<open>interested_more\<close> is not looked at. For a candidate that the
  normaliser produced the fields are trimmed already, so the lengths are the lengths of
  the fields and a contact field counts as soon as it is not null. The response in which
  every field is null is not meaningful, and both the language-model normaliser and the
  loop of the heuristic path keep only responses for which the function is true.
\<close>

theorem hasMeaningfulSurveyData_rule:
  "(hasMeaningfulSurveyData r \<longleftrightarrow>
      (is_present (q1_rating r) \<or> is_present (q2_rating r) \<or> is_present (q3_rating r) \<or>
       is_present (q4_rating r) \<or> is_present (q5_rating r) \<or> is_present (q6_rating r) \<or>
       is_present (q7_rating r) \<or> is_present (q8_rating r) \<or> is_present (q9_rating r) \<or>
       is_present (q10_rating r)) \<or>
      (\<exists>s. Val s \<in> {learned_1 r, learned_2 r, learned_3 r, suggestions r, comments r,
                     q11_expectations r, q12_overall_rating r} \<and> 5 < length (trim s)) \<or>
      (\<exists>s. Val s \<in> {participant_name r, company r, email r, phone r} \<and> 0 < length (trim s)))
   \<and> (r = normalizeResponse c e \<longrightarrow>
       (hasMeaningfulSurveyData r \<longleftrightarrow>
          (is_present (q1_rating r) \<or> is_present (q2_rating r) \<or> is_present (q3_rating r) \<or>
           is_present (q4_rating r) \<or> is_present (q5_rating r) \<or> is_present (q6_rating r) \<or>
           is_present (q7_rating r) \<or> is_present (q8_rating r) \<or> is_present (q9_rating r) \<or>
           is_present (q10_rating r)) \<or>
          (\<exists>s. Val s \<in> {learned_1 r, learned_2 r, learned_3 r, suggestions r, comments r,
                         q11_expectations r, q12_overall_rating r} \<and> 5 < length s) \<or>
          (\<exists>s. Val s \<in> {participant_name r, company r, email r, phone r})))
   \<and> \<not> hasMeaningfulSurveyData (normalizeResponse c (EObject []))
   \<and> (\<forall>x \<in> set (validResponses c es). hasMeaningfulSurveyData x)
   \<and> (\<forall>x \<in> set (collectForms c ts). hasMeaningfulSurveyData x)"
proof (intro conjI)
  show "hasMeaningfulSurveyData r \<longleftrightarrow>
      (is_present (q1_rating r) \<or> is_present (q2_rating r) \<or> is_present (q3_rating r) \<or>
       is_present (q4_rating r) \<or> is_present (q5_rating r) \<or> is_present (q6_rating r) \<or>
       is_present (q7_rating r) \<or> is_present (q8_rating r) \<or> is_present (q9_rating r) \<or>
       is_present (q10_rating r)) \<or>
      (\<exists>s. Val s \<in> {learned_1 r, learned_2 r, learned_3 r, suggestions r, comments r,
                     q11_expectations r, q12_overall_rating r} \<and> 5 < length (trim s)) \<or>
      (\<exists>s. Val s \<in> {participant_name r, company r, email r, phone r} \<and> 0 < length (trim s))"
    by (rule hasMeaningfulSurveyData_iff)
  show "r = normalizeResponse c e \<longrightarrow>
       (hasMeaningfulSurveyData r \<longleftrightarrow>
          (is_present (q1_rating r) \<or> is_present (q2_rating r) \<or> is_present (q3_rating r) \<or>
           is_present (q4_rating r) \<or> is_present (q5_rating r) \<or> is_present (q6_rating r) \<or>
           is_present (q7_rating r) \<or> is_present (q8_rating r) \<or> is_present (q9_rating r) \<or>
           is_present (q10_rating r)) \<or>
          (\<exists>s. Val s \<in> {learned_1 r, learned_2 r, learned_3 r, suggestions r, comments r,
                         q11_expectations r, q12_overall_rating r} \<and> 5 < length s) \<or>
          (\<exists>s. Val s \<in> {participant_name r, company r, email r, phone r}))"
  proof
    assume r: "r = normalizeResponse c e"
    define A where "A \<longleftrightarrow>
          (is_present (q1_rating r) \<or> is_present (q2_rating r) \<or> is_present (q3_rating r) \<or>
           is_present (q4_rating r) \<or> is_present (q5_rating r) \<or> is_present (q6_rating r) \<or>
           is_present (q7_rating r) \<or> is_present (q8_rating r) \<or> is_present (q9_rating r) \<or>
           is_present (q10_rating r))"
    define T where "T = {learned_1 r, learned_2 r, learned_3 r, suggestions r, comments r,
                         q11_expectations r, q12_overall_rating r}"
    define K where "K = {participant_name r, company r, email r, phone r}"
    have tT: "trim s = s" if "Val s \<in> T" for s
      using that unfolding T_def r by (rule normalized_text_fields)
    have tK: "trim s = s \<and> s \<noteq> []" if "Val s \<in> K" for s
      using that unfolding K_def r by (rule normalized_contact_fields)
    have texts: "(\<exists>s. Val s \<in> T \<and> 5 < length (trim s)) \<longleftrightarrow> (\<exists>s. Val s \<in> T \<and> 5 < length s)"
      using tT by auto
    have contacts: "(\<exists>s. Val s \<in> K \<and> 0 < length (trim s)) \<longleftrightarrow> (\<exists>s. Val s \<in> K)"
      using tK by auto
    have "hasMeaningfulSurveyData r \<longleftrightarrow>
            A \<or> (\<exists>s. Val s \<in> T \<and> 5 < length (trim s)) \<or> (\<exists>s. Val s \<in> K \<and> 0 < length (trim s))"
      unfolding A_def T_def K_def by (rule hasMeaningfulSurveyData_iff)
    then have "hasMeaningfulSurveyData r \<longleftrightarrow>
            A \<or> (\<exists>s. Val s \<in> T \<and> 5 < length s) \<or> (\<exists>s. Val s \<in> K)"
      by (simp only: texts contacts)
    then show "hasMeaningfulSurveyData r \<longleftrightarrow>
          (is_present (q1_rating r) \<or> is_present (q2_rating r) \<or> is_present (q3_rating r) \<or>
           is_present (q4_rating r) \<or> is_present (q5_rating r) \<or> is_present (q6_rating r) \<or>
           is_present (q7_rating r) \<or> is_present (q8_rating r) \<or> is_present (q9_rating r) \<or>
           is_present (q10_rating r)) \<or>
          (\<exists>s. Val s \<in> {learned_1 r, learned_2 r, learned_3 r, suggestions r, comments r,
                         q11_expectations r, q12_overall_rating r} \<and> 5 < length s) \<or>
          (\<exists>s. Val s \<in> {participant_name r, company r, email r, phone r})"
      unfolding A_def T_def K_def .
  qed
  show "\<not> hasMeaningfulSurveyData (normalizeResponse c (EObject []))"
    by (simp add: hasMeaningfulSurveyData_def normalizeResponse_def get_field_def get_prop_def
        validateRating_def validateText_def validateEmail_def is_present_def trimmed_longer_def)
  show "\<forall>x \<in> set (validResponses c es). hasMeaningfulSurveyData x"
    by (simp add: validResponses_def)
  show "\<forall>x \<in> set (collectForms c ts). hasMeaningfulSurveyData x"
    by (induction ts) (simp_all add: Let_def)
qed

theorem hasMeaningfulSurveyData_rule_witness:
  "hasMeaningfulSurveyData
     (normalizeResponse ''Course'' (EObject [(''learned_1'', JStr ''great course'')]))
   \<and> validResponses ''Course'' [EObject [(''learned_1'', JStr ''great course'')], EObject []]
       = [normalizeResponse ''Course'' (EObject [(''learned_1'', JStr ''great course'')])]"
proof -
  let ?e = "EObject [(''learned_1'', JStr ''great course'')]"
  let ?r = "normalizeResponse ''Course'' ?e"
  note rule = hasMeaningfulSurveyData_rule [of ?r "''Course''" ?e "[?e, EObject []]" "[]"]
  have l: "learned_1 ?r = Val ''great course''"
    by (simp add: normalizeResponse_def get_field_def get_prop_def validateText_def trim_def
        is_space_def)
  have m: "hasMeaningfulSurveyData ?r"
    apply (rule rule [THEN conjunct2, THEN conjunct1, THEN mp, OF refl, THEN iffD2])
    apply (rule disjI2)
    apply (rule disjI1)
    apply (rule exI [of _ "''great course''"])
    apply (simp add: l)
    done
  have n: "\<not> hasMeaningfulSurveyData (normalizeResponse ''Course'' (EObject []))"
    by (rule rule [THEN conjunct2, THEN conjunct2, THEN conjunct1])
  show ?thesis using m n by (simp add: validResponses_def is_object_def)
qed

text \<open>
  C1 as the specification words it fails: a candidate whose only content is a text of 15
  characters in \<open>interested_more\<close> has a text field longer than 5 and is discarded.
\<close>

theorem hasMeaningfulSurveyData_interested_more_counterexample:
  "interested_more
     (normalizeResponse ''Course'' (EObject [(''interested_more'', JStr ''advanced topics'')]))
     = Val ''advanced topics''
   \<and> 5 < length ''advanced topics''
   \<and> \<not> hasMeaningfulSurveyData
        (normalizeResponse ''Course'' (EObject [(''interested_more'', JStr ''advanced topics'')]))
   \<and> validResponses ''Course'' [EObject [(''interested_more'', JStr ''advanced topics'')]] = []"
  by (simp add: hasMeaningfulSurveyData_def normalizeResponse_def get_field_def get_prop_def
      validateRating_def validateText_def validateEmail_def is_present_def trimmed_longer_def
      trim_def is_space_def validResponses_def is_object_def)

subsection \<open>C2: rating validation\<close>

text \<open>
  C2, as the code has it. For a number \<open>r\<close> and finite bounds, \<^const>\<open>validateRating\<close>
  returns \<open>r\<close> unchanged exactly when \<open>lo \<le> r \<le> hi\<close> and null otherwise. A string is
  converted with \<^verbatim>\<open>parseInt\<close>: for a decimal numeral that denotes the number \<open>q\<close> the
  result is the one for \<open>q\<close> rounded toward zero, hence the one for \<open>q\<close> itself when
  \<open>q\<close> is an integer.
\<close>

theorem validateRating_range_and_strings:
  "(validateRating (JNum r) (Fin lo) (Fin hi) = Val r \<longleftrightarrow> js_le (Fin lo) r \<and> js_le r (Fin hi))
   \<and> (\<not> (js_le (Fin lo) r \<and> js_le r (Fin hi)) \<longrightarrow> validateRating (JNum r) (Fin lo) (Fin hi) = Null)
   \<and> (numeric_string_value s = Some q \<longrightarrow>
        validateRating (JStr s) (Fin lo) (Fin hi)
          = validateRating (JNum (Fin (truncate_rat q))) (Fin lo) (Fin hi))
   \<and> (numeric_string_value s = Some q \<and> q \<in> \<int> \<longrightarrow>
        validateRating (JStr s) (Fin lo) (Fin hi) = validateRating (JNum (Fin q)) (Fin lo) (Fin hi))"
proof -
  have str: "validateRating (JStr s) (Fin lo) (Fin hi)
               = validateRating (JNum (Fin (truncate_rat q))) (Fin lo) (Fin hi)"
    if "numeric_string_value s = Some q"
    using that validateRating_string [OF numeric_string_nonempty [OF that]] parseInt_numeric [OF that]
    by simp
  have int: "truncate_rat q = q" if "q \<in> \<int>"
    using that by (auto simp: truncate_rat_def elim!: Ints_cases)
  show ?thesis
    using str int by (simp add: validateRating_number)
qed

theorem validateRating_range_and_strings_witness:
  "validateRating (JNum (Fin 4)) (Fin 1) (Fin 5) = Val (Fin 4)
   \<and> validateRating (JNum (Fin 7)) (Fin 1) (Fin 5) = Null
   \<and> numeric_string_value ''4'' = Some 4
   \<and> validateRating (JStr ''4'') (Fin 1) (Fin 5) = Val (Fin 4)"
proof -
  have n: "numeric_string_value ''4'' = Some 4"
    by (simp add: numeric_string_value_def is_digit_def digits_value_def digit_value_def)
  have z: "(4::rat) \<in> \<int>" by simp
  have a: "js_le (Fin 1) (Fin 4) \<and> js_le (Fin 4) (Fin 5)" by (simp add: js_le_def)
  have b: "\<not> (js_le (Fin 1) (Fin 7) \<and> js_le (Fin 7) (Fin 5))" by (simp add: js_le_def)
  from validateRating_range_and_strings [of "Fin 4" 1 5 "''4''" 4] a n z
  have "validateRating (JNum (Fin 4)) (Fin 1) (Fin 5) = Val (Fin 4)"
    and "validateRating (JStr ''4'') (Fin 1) (Fin 5) = validateRating (JNum (Fin 4)) (Fin 1) (Fin 5)"
    by blast+
  moreover from validateRating_range_and_strings [of "Fin 7" 1 5 "''4''" 4] b
  have "validateRating (JNum (Fin 7)) (Fin 1) (Fin 5) = Null" by blast
  ultimately show ?thesis using n by simp
qed

text \<open>
  C2 as the specification words it fails for the numeric string \<^verbatim>\<open>"3.5"\<close>: the number 3.5
  lies between 1 and 5 and is returned unchanged, the string yields 3.
\<close>

theorem validateRating_numeric_string_counterexample:
  "numeric_string_value ''3.5'' = Some (7 / 2)
   \<and> validateRating (JNum (Fin (7 / 2))) (Fin 1) (Fin 5) = Val (Fin (7 / 2))
   \<and> validateRating (JStr ''3.5'') (Fin 1) (Fin 5) = Val (Fin 3)
   \<and> validateRating (JStr ''3.5'') (Fin 1) (Fin 5)
       \<noteq> validateRating (JNum (Fin (7 / 2))) (Fin 1) (Fin 5)"
  by (simp add: numeric_string_value_def is_digit_def digits_value_def digit_value_def
      validateRating_def parseInt_def is_space_def has_hex_prefix_def is_radix_digit_def
      js_gt_def)

subsection \<open>C9: form segmentation\<close>

lemma dropWhile_append_suffix: "\<exists>w. dropWhile P (x @ y) = w @ dropWhile P y"
proof (induction x)
  case Nil
  then show ?case by simp
next
  case (Cons a x)
  show ?case
  proof (cases "P a")
    case True
    then show ?thesis using Cons by simp
  next
    case False
    have "a # x @ y = (a # x @ takeWhile P y) @ dropWhile P y" by simp
    then show ?thesis using False by (metis append_Cons dropWhile.simps(2))
  qed
qed

lemma length_dropWhile_append: "length (dropWhile P a) \<le> length (dropWhile P (a @ b))"
proof (cases "\<forall>x\<in>set a. P x")
  case True
  then have "length (dropWhile P a) = 0" by simp
  then show ?thesis by linarith
next
  case False
  then show ?thesis by auto
qed

lemma trim_length_suffix: "length (trim y) \<le> length (trim (x @ y))"
proof -
  obtain w where w: "dropWhile is_space (x @ y) = w @ dropWhile is_space y"
    using dropWhile_append_suffix by blast
  have "length (dropWhile is_space (rev (dropWhile is_space y)))
          \<le> length (dropWhile is_space (rev (dropWhile is_space y) @ rev w))"
    by (rule length_dropWhile_append)
  then show ?thesis by (simp add: trim_def w)
qed

lemma apply_separator_ok:
  assumes "sections_ok sections"
  shows "sections_ok (apply_separator split sections)"
proof -
  define new where
    "new = concat (map (\<lambda>section. filter (\<lambda>part. length (trim part) > 50) (split section))
                       sections)"
  have big: "\<forall>s\<in>set new. 50 < length (trim s)"
    by (auto simp: new_def)
  have step: "apply_separator split sections
                = (if length new > length sections \<and> length new \<le> 50 then new else sections)"
    by (simp only: apply_separator_def Let_def new_def)
  show ?thesis
  proof (cases "length new > length sections \<and> length new \<le> 50")
    case True
    then have "new \<noteq> []" by (cases new) simp_all
    then have "sections_ok new" using big by (simp add: sections_ok_def)
    then show ?thesis using True step by simp
  next
    case False
    then have "apply_separator split sections = sections"
      using step by (simp only: if_False)
    then show ?thesis using assms by simp
  qed
qed

lemma separators_ok:
  "sections_ok sections \<Longrightarrow>
     sections_ok (foldl (\<lambda>sections split. apply_separator split sections) sections seps)"
  by (induction seps arbitrary: sections) (simp_all add: apply_separator_ok)

lemma merge_sections_current:
  assumes "\<forall>s\<in>set sections. 50 < length (trim s)"
      and "sections \<noteq> [] \<or> 50 < length (trim cur)"
  shows "50 < length (trim (snd (merge_sections sections cur merged)))"
  using assms
proof (induction sections arbitrary: cur merged)
  case Nil
  then show ?case by simp
next
  case (Cons s rest)
  have big: "50 < length (trim s)" using Cons.prems(1) by simp
  have rest: "\<forall>s\<in>set rest. 50 < length (trim s)" using Cons.prems(1) by simp
  show ?case
  proof (cases "length cur + length s < 1500")
    case True
    have "length (trim s) \<le> length (trim ((cur @ '' '') @ s))"
      by (rule trim_length_suffix)
    then have "50 < length (trim (cur @ '' '' @ s))" using big by simp
    then show ?thesis using True Cons.IH [OF rest] by simp
  next
    case False
    then show ?thesis using Cons.IH [OF rest] big by simp
  qed
qed

text \<open>
  C9. Whatever the separators do and whatever the text is, the segmentation returns at
  least one section and at most 50; in particular it returns a section for every
  non-empty text.
\<close>

theorem splitIntoFormSections_bounds:
  "length (splitIntoFormSections seps text) \<le> 50
   \<and> splitIntoFormSections seps text \<noteq> []
   \<and> (text \<noteq> [] \<longrightarrow> 1 \<le> length (splitIntoFormSections seps text))"
proof -
  let ?sections = "foldl (\<lambda>sections split. apply_separator split sections) [text] seps"
  have ok: "sections_ok ?sections"
    by (rule separators_ok) (simp add: sections_ok_def)
  have ne: "splitIntoFormSections seps text \<noteq> []"
  proof (cases "length ?sections > 15")
    case False
    then show ?thesis using ok
      by (simp add: splitIntoFormSections_def Let_def sections_ok_def)
  next
    case True
    then have big: "\<forall>s\<in>set ?sections. 50 < length (trim s)"
      using ok by (simp add: sections_ok_def)
    have "?sections \<noteq> []" using ok by (simp add: sections_ok_def)
    then have cur: "50 < length (trim (snd (merge_sections ?sections [] [])))"
      using merge_sections_current [OF big] by blast
    obtain merged current where mc: "merge_sections ?sections [] [] = (merged, current)"
      by (meson surj_pair)
    have "50 < length (trim current)" using cur by (simp add: mc)
    then show ?thesis using True
      by (simp add: splitIntoFormSections_def Let_def mc)
  qed
  have le: "length (splitIntoFormSections seps text) \<le> 50"
    by (simp add: splitIntoFormSections_def Let_def)
  show ?thesis using ne le by (cases "splitIntoFormSections seps text") auto
qed

theorem splitIntoFormSections_bounds_witness:
  "''Name: Ann'' \<noteq> []
   \<and> splitIntoFormSections [\<lambda>s. [take 4 s, drop 5 s]] ''Name: Ann'' = [''Name: Ann'']"
proof -
  have n: "''Name: Ann'' \<noteq> []" by simp
  have "1 \<le> length (splitIntoFormSections [\<lambda>s. [take 4 s, drop 5 s]] ''Name: Ann'')"
    using splitIntoFormSections_bounds [of "[\<lambda>s. [take 4 s, drop 5 s]]" "''Name: Ann''"] n
    by blast
  then show ?thesis
    by (simp add: splitIntoFormSections_def apply_separator_def trim_def is_space_def)
qed

subsection \<open>C3: the heuristic path\<close>

text \<open>
  C3 fails on the code. \<^const>\<open>extractSurveyDataEnhanced\<close> returns a response that
  holds the course name and nothing else, so no section passes the retention rule and the
  heuristic path returns no response for any document; for three sections that follow a
  ``Name:'' label and carry the ratings Q1 to Q9 it returns none instead of three.
\<close>

theorem heuristic_path_extracts_nothing:
  "\<not> hasMeaningfulSurveyData (extractSurveyDataEnhanced text courseName)
   \<and> collectForms courseName sections = []
   \<and> processPDFWithTraditionalMethods tf doc courseName = []
   \<and> collectForms ''Course''
        ['' Ann Lee Q1: 4 Q2: 5 Q3: 4 Q4: 5 Q5: 3 Q6: 4 Q7: 5 Q8: 4 Q9: 5 '',
         '' Bob Ray Q1: 3 Q2: 4 Q3: 4 Q4: 4 Q5: 5 Q6: 5 Q7: 3 Q8: 4 Q9: 4 '',
         '' Cat Poe Q1: 5 Q2: 5 Q3: 5 Q4: 4 Q5: 4 Q6: 3 Q7: 4 Q8: 5 Q9: 5 ''] = []"
proof -
  have none: "\<not> hasMeaningfulSurveyData (extractSurveyDataEnhanced t c)" for t c
    by (simp add: extractSurveyDataEnhanced_def blankResponse_not_meaningful)
  have loop: "collectForms c ts = []" for c ts
    by (induction ts) (simp_all add: Let_def none)
  have "processPDFWithTraditionalMethods tf doc courseName = []"
    by (simp add: processPDFWithTraditionalMethods_def Let_def loop)
  then show ?thesis using none loop by simp
qed

subsection \<open>C4: detection of scanned documents\<close>

text \<open>
  C4 fails on the code by one word. The text below has exactly 50 words of four letters
  or more, contains \<^verbatim>\<open>stream\<close>, and consists of letters and spaces only. With ``at least
  50'' words it is text-native; the code asks for more than 50 and sends it to the vision
  path.
\<close>

theorem fifty_words_classified_scanned:
  "length (word_matches (''stream'' @ concat (replicate 49 '' abcd''))) = 50
   \<and> hasEncodedData (''stream'' @ concat (replicate 49 '' abcd''))
   \<and> readableTextRatio (''stream'' @ concat (replicate 49 '' abcd'')) = Fin 1
   \<and> usesVisionPath (''stream'' @ concat (replicate 49 '' abcd''))
   \<and> \<not> spec_classifiedScanned (''stream'' @ concat (replicate 49 '' abcd''))"
proof -
  let ?t = "''stream'' @ concat (replicate 49 '' abcd'')"
  have w: "length (word_matches ?t) = 50" by code_simp
  have e: "hasEncodedData ?t" by code_simp
  have r: "readableTextRatio ?t = Fin 1" by code_simp
  have "usesVisionPath ?t"
    using w e by (simp add: usesVisionPath_def isLikelyScanned_def hasActualWords_def)
  moreover have "\<not> spec_classifiedScanned ?t"
    using w r by (simp add: spec_classifiedScanned_def spec_hasActualWords_def)
  ultimately show ?thesis using w e r by simp
qed

subsection \<open>C8: accepted shapes of the parsed reply\<close>

text \<open>
  C8 holds for the text variant and fails for the vision variant. The text variant takes
  the candidates from a bare array, from \<^verbatim>\<open>responses\<close>, from \<^verbatim>\<open>surveys\<close>, or wraps a
  single object; the vision variant looks at \<^verbatim>\<open>responses\<close> only and yields nothing for
  the three other shapes, also for a bare array with one valid response.
\<close>

theorem vision_variant_ignores_three_shapes:
  "llmTextExtraction c (Content (PArray es)) = Some (validResponses c es)
   \<and> llmTextExtraction c (Content (PObject props (MArray es) sv)) = Some (validResponses c es)
   \<and> llmTextExtraction c (Content (PObject props MFalsy (MArray es))) = Some (validResponses c es)
   \<and> llmTextExtraction c (Content (PObject props MFalsy MFalsy)) = Some (validResponses c [EObject props])
   \<and> pageResponses c (PObject props (MArray es) sv) = validResponses c es
   \<and> pageResponses c (PArray es) = []
   \<and> pageResponses c (PObject props MFalsy (MArray es)) = []
   \<and> pageResponses c (PObject props MFalsy MFalsy) = []
   \<and> llmTextExtraction ''Course'' (Content (PArray [EObject [(''q1_rating'', JNum (Fin 4))]]))
        = Some [normalizeResponse ''Course'' (EObject [(''q1_rating'', JNum (Fin 4))])]
   \<and> processPDFWithOpenAIVision ''Course''
        (Some [PageContent (PArray [EObject [(''q1_rating'', JNum (Fin 4))]])]) = Some []"
proof -
  have m: "hasMeaningfulSurveyData
             (normalizeResponse ''Course'' (EObject [(''q1_rating'', JNum (Fin 4))]))"
    by (simp add: hasMeaningfulSurveyData_def normalizeResponse_def get_field_def get_prop_def
        validateRating_def js_gt_def is_present_def)
  have "llmTextExtraction ''Course'' (Content (PArray [EObject [(''q1_rating'', JNum (Fin 4))]]))
          = Some [normalizeResponse ''Course'' (EObject [(''q1_rating'', JNum (Fin 4))])]"
    using m by (simp add: llmTextExtraction_def responsesOf_def validResponses_def is_object_def)
  then show ?thesis
    by (simp add: llmTextExtraction_def responsesOf_def pageResponses_def
        processPDFWithOpenAIVision_def)
qed

subsection \<open>C7: page failures in the vision path\<close>

lemma visionPages_skip:
  assumes "p = PageHttpError True \<or> p = PageContentNotJson"
  shows "visionPages c (ps @ p # qs) acc = visionPages c (ps @ qs) acc"
  using assms by (induction ps arbitrary: acc) (auto split: page_reply.split)

lemma visionPages_abort:
  assumes "p = PageFetchFailed \<or> p = PageHttpError False \<or> p = PageBodyUnreadable
           \<or> p = PageNoChoices"
  shows "visionPages c (ps @ p # qs) acc = None"
  using assms by (induction ps arbitrary: acc) (auto split: page_reply.split)

lemma visionPages_all:
  assumes "\<forall>p\<in>set pages. p = PageHttpError True \<or> p = PageContentNotJson \<or> (\<exists>d. p = PageContent d)"
  shows "visionPages c pages acc =
           Some (acc @ concat (map (\<lambda>p. case p of PageContent d \<Rightarrow> pageResponses c d | _ \<Rightarrow> [])
                                   pages))"
  using assms
proof (induction pages arbitrary: acc)
  case Nil
  then show ?case by simp
next
  case (Cons p pages)
  then have rest: "\<forall>p\<in>set pages. p = PageHttpError True \<or> p = PageContentNotJson \<or> (\<exists>d. p = PageContent d)"
    by simp
  from Cons.prems have "p = PageHttpError True \<or> p = PageContentNotJson \<or> (\<exists>d. p = PageContent d)"
    by simp
  then show ?case using Cons.IH [OF rest] by auto
qed

text \<open>
  C7 fails on the code. The loop skips a page that is answered with an HTTP error status
  and a JSON error body, or with content that is not JSON. The request itself, the reading
  of an error body and the reading of the reply stand outside the inner \<^verbatim>\<open>try\<close>: when
  \<^verbatim>\<open>fetch\<close> rejects for a page, when the error body of a page is not JSON, when the body
  of a reply cannot be read or has no \<^verbatim>\<open>choices\<close>, the loop ends with an exception
  wherever the page stands. For a document of two pages whose first page holds a valid
  response, a failure of the second page's request loses that response, and
  \<^const>\<open>processPDFWithOpenAI\<close> returns the empty result of the heuristic path.
\<close>

theorem vision_page_failure_aborts:
  "visionPages c (ps @ PageFetchFailed # qs) acc = None
   \<and> visionPages c (ps @ PageHttpError False # qs) acc = None
   \<and> visionPages c (ps @ PageBodyUnreadable # qs) acc = None
   \<and> visionPages c (ps @ PageNoChoices # qs) acc = None
   \<and> processPDFWithOpenAIVision ''Course''
        (Some [PageHttpError True,
               PageContent (PObject [] (MArray [EObject [(''q1_rating'', JNum (Fin 4))]]) MFalsy),
               PageContentNotJson])
        = Some [normalizeResponse ''Course'' (EObject [(''q1_rating'', JNum (Fin 4))])]
   \<and> processPDFWithOpenAIVision ''Course''
        (Some [PageContent (PObject [] (MArray [EObject [(''q1_rating'', JNum (Fin 4))]]) MFalsy)])
        = Some [normalizeResponse ''Course'' (EObject [(''q1_rating'', JNum (Fin 4))])]
   \<and> processPDFWithOpenAIVision ''Course''
        (Some [PageContent (PObject [] (MArray [EObject [(''q1_rating'', JNum (Fin 4))]]) MFalsy),
               PageFetchFailed])
        = None
   \<and> processPDFWithOpenAIVision ''Course''
        (Some [PageContent (PObject [] (MArray [EObject [(''q1_rating'', JNum (Fin 4))]]) MFalsy),
               PageHttpError False])
        = None
   \<and> processPDFWithOpenAI tf
        \<lparr>text_reply = NoContent,
         page_replies = Some
           [PageContent (PObject [] (MArray [EObject [(''q1_rating'', JNum (Fin 4))]]) MFalsy),
            PageFetchFailed]\<rparr>
        \<lparr>structure_text = [], ocr_like_text = [], raw_text = ''stream''\<rparr> ''Course''
        = []"
proof -
  have m: "hasMeaningfulSurveyData
             (normalizeResponse ''Course'' (EObject [(''q1_rating'', JNum (Fin 4))]))"
    by (simp add: hasMeaningfulSurveyData_def normalizeResponse_def get_field_def get_prop_def
        validateRating_def js_gt_def is_present_def)
  have abort: "visionPages c (ps @ PageFetchFailed # qs) acc = None
     \<and> visionPages c (ps @ PageHttpError False # qs) acc = None
     \<and> visionPages c (ps @ PageBodyUnreadable # qs) acc = None
     \<and> visionPages c (ps @ PageNoChoices # qs) acc = None"
    by (simp add: visionPages_abort)
  have pages: "processPDFWithOpenAIVision ''Course''
        (Some [PageHttpError True,
               PageContent (PObject [] (MArray [EObject [(''q1_rating'', JNum (Fin 4))]]) MFalsy),
               PageContentNotJson])
        = Some [normalizeResponse ''Course'' (EObject [(''q1_rating'', JNum (Fin 4))])]
   \<and> processPDFWithOpenAIVision ''Course''
        (Some [PageContent (PObject [] (MArray [EObject [(''q1_rating'', JNum (Fin 4))]]) MFalsy)])
        = Some [normalizeResponse ''Course'' (EObject [(''q1_rating'', JNum (Fin 4))])]
   \<and> processPDFWithOpenAIVision ''Course''
        (Some [PageContent (PObject [] (MArray [EObject [(''q1_rating'', JNum (Fin 4))]]) MFalsy),
               PageFetchFailed])
        = None
   \<and> processPDFWithOpenAIVision ''Course''
        (Some [PageContent (PObject [] (MArray [EObject [(''q1_rating'', JNum (Fin 4))]]) MFalsy),
               PageHttpError False])
        = None"
    using m by (simp add: processPDFWithOpenAIVision_def pageResponses_def validResponses_def
        is_object_def)
  have scanned: "usesVisionPath ''stream''" by code_simp
  have "processPDFWithTraditionalMethods tf
          \<lparr>structure_text = [], ocr_like_text = [], raw_text = ''stream''\<rparr> ''Course'' = []"
    by (simp add: processPDFWithTraditionalMethods_def)
  then have orchestrated: "processPDFWithOpenAI tf
        \<lparr>text_reply = NoContent,
         page_replies = Some
           [PageContent (PObject [] (MArray [EObject [(''q1_rating'', JNum (Fin 4))]]) MFalsy),
            PageFetchFailed]\<rparr>
        \<lparr>structure_text = [], ocr_like_text = [], raw_text = ''stream''\<rparr> ''Course''
        = []"
    using scanned by (simp add: processPDFWithOpenAI_def processPDFWithOpenAIVision_def)
  show ?thesis using abort pages orchestrated by (simp only: simp_thms)
qed

subsection \<open>The request handler: auxiliary facts\<close>

text \<open>The handler of a run whose updates are all applied, written out.\<close>

lemma issue_update_True: "issue_update True = update_upload"
  by (simp add: fun_eq_iff issue_update_def)

lemma handler_try_unfold:
  "handler_try env db =
     (case fetchDocument env db of
        Inl e \<Rightarrow> Inl e
      | Inr (upload, doc) \<Rightarrow>
          let extracted = extractForms env doc (upload_course_name upload);
              extractedForms =
                (if length extracted = 0
                 then extracted @ [placeholderForm (upload_course_name upload) (today env)]
                 else extracted);
              responsesToInsert = map (\<lambda>form. (req_uploadId env, form)) extractedForms
          in if insert_fails env then Inl InsertError
             else Inr (update_upload (req_uploadId env)
                         (\<lambda>row. row\<lparr>processing_status := Completed,
                                    total_forms := length extractedForms,
                                    processed_forms := length extractedForms\<rparr>)
                         (db\<lparr>survey_responses := survey_responses db @ responsesToInsert\<rparr>),
                       length extractedForms))"
  unfolding handler_try_def serve_try_def issue_update_True by (rule refl)

lemma handler_unfold:
  "handler env db =
     (if req_uploadId env = [] then (db, Inl MissingUploadId)
      else let db1 = update_upload (req_uploadId env)
                       (\<lambda>row. row\<lparr>processing_status := Processing\<rparr>) db
           in case handler_try env db1 of
                Inl e \<Rightarrow>
                  (update_upload (req_uploadId env)
                     (\<lambda>row. row\<lparr>processing_status := Failed\<rparr>) db1, Inl e)
              | Inr (db2, formsProcessed) \<Rightarrow> (db2, Inr formsProcessed))"
  unfolding handler_def serve_def update_results.select_convs issue_update_True
    handler_try_def [symmetric]
  by (rule refl)

lemma course_uploads_update:
  "course_uploads (update_upload i f db) i = map_option f (course_uploads db i)"
  by (simp add: update_upload_def split: option.split)

lemma survey_responses_update:
  "survey_responses (update_upload i f db) = survey_responses db"
  by (simp add: update_upload_def split: option.split)

lemma fetchDocument_row:
  "fetchDocument env db = Inr (upload, doc) \<Longrightarrow> course_uploads db (req_uploadId env) = Some upload"
  by (auto simp: fetchDocument_def Let_def
      split: option.splits if_splits download_outcome.splits)

lemma fetchDocument_key [simp]:
  "fetchDocument (env\<lparr>openai_api_key := k\<rparr>) db = fetchDocument env db"
  by (simp add: fetchDocument_def Let_def split: option.split)


text \<open>
  What a run does once the document is fetched and the insertion succeeds: \<open>forms\<close>
  are the extracted responses, or the placeholder alone when there are none.
\<close>

lemma handler_completed:
  assumes id: "req_uploadId env \<noteq> []"
      and fetch: "fetchDocument env (update_upload (req_uploadId env)
                    (\<lambda>row. row\<lparr>processing_status := Processing\<rparr>) db) = Inr (upload, doc)"
      and ins: "\<not> insert_fails env"
      and forms: "forms = (if extractForms env doc (upload_course_name upload) = []
                           then [placeholderForm (upload_course_name upload) (today env)]
                           else extractForms env doc (upload_course_name upload))"
  shows "\<exists>db'. handler env db = (db', Inr (length forms))
           \<and> survey_responses db' = survey_responses db @ map (Pair (req_uploadId env)) forms
           \<and> course_uploads db' (req_uploadId env)
               = Some (upload\<lparr>processing_status := Completed, total_forms := length forms,
                                processed_forms := length forms\<rparr>)"
proof -
  let ?db1 = "update_upload (req_uploadId env) (\<lambda>row. row\<lparr>processing_status := Processing\<rparr>) db"
  have row: "course_uploads ?db1 (req_uploadId env) = Some upload"
    using fetch by (rule fetchDocument_row)
  have "handler_try env ?db1 =
          Inr (update_upload (req_uploadId env)
                 (\<lambda>row. row\<lparr>processing_status := Completed, total_forms := length forms,
                            processed_forms := length forms\<rparr>)
                 (?db1\<lparr>survey_responses := survey_responses ?db1 @ map (Pair (req_uploadId env)) forms\<rparr>),
               length forms)"
    using fetch ins forms by (simp add: handler_try_unfold Let_def)
  then have run: "handler env db =
          (update_upload (req_uploadId env)
             (\<lambda>row. row\<lparr>processing_status := Completed, total_forms := length forms,
                        processed_forms := length forms\<rparr>)
             (?db1\<lparr>survey_responses := survey_responses ?db1 @ map (Pair (req_uploadId env)) forms\<rparr>),
           Inr (length forms))"
    using id by (simp add: handler_unfold Let_def)
  have "survey_responses ?db1 = survey_responses db"
    by (rule survey_responses_update)
  then have resp: "survey_responses
          (update_upload (req_uploadId env)
             (\<lambda>row. row\<lparr>processing_status := Completed, total_forms := length forms,
                        processed_forms := length forms\<rparr>)
             (?db1\<lparr>survey_responses := survey_responses ?db1 @ map (Pair (req_uploadId env)) forms\<rparr>))
        = survey_responses db @ map (Pair (req_uploadId env)) forms"
    by (simp add: survey_responses_update)
  have "course_uploads
          (update_upload (req_uploadId env)
             (\<lambda>row. row\<lparr>processing_status := Completed, total_forms := length forms,
                        processed_forms := length forms\<rparr>)
             (?db1\<lparr>survey_responses := survey_responses ?db1 @ map (Pair (req_uploadId env)) forms\<rparr>))
          (req_uploadId env)
        = map_option (\<lambda>row. row\<lparr>processing_status := Completed, total_forms := length forms,
                        processed_forms := length forms\<rparr>)
            (course_uploads
               (?db1\<lparr>survey_responses := survey_responses ?db1 @ map (Pair (req_uploadId env)) forms\<rparr>)
               (req_uploadId env))"
    by (rule course_uploads_update)
  then have job: "course_uploads
          (update_upload (req_uploadId env)
             (\<lambda>row. row\<lparr>processing_status := Completed, total_forms := length forms,
                        processed_forms := length forms\<rparr>)
             (?db1\<lparr>survey_responses := survey_responses ?db1 @ map (Pair (req_uploadId env)) forms\<rparr>))
          (req_uploadId env)
        = Some (upload\<lparr>processing_status := Completed, total_forms := length forms,
                          processed_forms := length forms\<rparr>)"
    using row by simp
  show ?thesis using run resp job by blast
qed

lemma handler_result_cases:
  assumes "handler env db = (db', Inr n)"
  shows "req_uploadId env \<noteq> [] \<and> \<not> insert_fails env
         \<and> (\<exists>upload doc. fetchDocument env (update_upload (req_uploadId env)
                (\<lambda>row. row\<lparr>processing_status := Processing\<rparr>) db) = Inr (upload, doc))"
  using assms
  by (auto simp: handler_unfold handler_try_unfold Let_def split: if_splits sum.splits prod.splits)

lemma handler_failed_status:
  assumes "req_uploadId env \<noteq> []" and "snd (handler env db) = Inl e"
      and "course_uploads (fst (handler env db)) (req_uploadId env) = Some row"
  shows "processing_status row = Failed"
  using assms
  by (auto simp: handler_unfold Let_def course_uploads_update split: sum.splits prod.splits)

subsection \<open>C10: the counts of a completed job\<close>

text \<open>
  Also when row updates can be refused, the status completed is written by the final
  update only: a row that was not completed before the run and is completed after it
  holds equal counts, and the run ended with the success response.
\<close>

lemma issue_update_row:
  "course_uploads (issue_update applied i f db) i
     = (if applied then map_option f (course_uploads db i) else course_uploads db i)"
  by (simp add: issue_update_def course_uploads_update)

lemma serve_completed_row:
  assumes before: "course_uploads db (req_uploadId env) = Some row0"
                  "processing_status row0 \<noteq> Completed"
      and run: "serve u env db = (db', res)"
      and after: "course_uploads db' (req_uploadId env) = Some row'"
                 "processing_status row' = Completed"
  shows "total_forms row' = processed_forms row' \<and> res = Inr (processed_forms row')"
proof -
  define db1 where "db1 = issue_update (processing_applied u) (req_uploadId env)
                            (\<lambda>row. row\<lparr>processing_status := Processing\<rparr>) db"
  have id: "req_uploadId env \<noteq> []"
    using run before after by (auto simp: serve_def)
  have "\<exists>r. course_uploads db1 (req_uploadId env) = Some r \<and> processing_status r \<noteq> Completed"
    using before by (cases "processing_applied u") (simp_all add: db1_def issue_update_row)
  then obtain r1 where r1: "course_uploads db1 (req_uploadId env) = Some r1"
      "processing_status r1 \<noteq> Completed"
    by blast
  show ?thesis
  proof (cases "serve_try (completed_applied u) env db1")
    case (Inl e)
    then have "db' = issue_update (failed_applied u) (req_uploadId env)
                       (\<lambda>row. row\<lparr>processing_status := Failed\<rparr>) db1"
      using run id by (simp add: serve_def Let_def db1_def [symmetric])
    then have "processing_status row' \<noteq> Completed"
      using after(1) r1 by (auto simp: issue_update_row split: if_splits)
    then show ?thesis using after(2) by simp
  next
    case (Inr pair)
    obtain db2 n where pair: "pair = (db2, n)" by (cases pair)
    have res: "db' = db2" "res = Inr n"
      using run id Inr pair by (simp_all add: serve_def Let_def db1_def [symmetric])
    from Inr pair obtain upload doc forms where
      db2: "db2 = issue_update (completed_applied u) (req_uploadId env)
                 (\<lambda>row. row\<lparr>processing_status := Completed, total_forms := n,
                            processed_forms := n\<rparr>)
                 (db1\<lparr>survey_responses := forms\<rparr>)"
      by (auto simp: serve_try_def Let_def split: sum.splits prod.splits if_splits)
    have "course_uploads (db1\<lparr>survey_responses := forms\<rparr>) (req_uploadId env) = Some r1"
      using r1 by simp
    then have "course_uploads db2 (req_uploadId env)
                = (if completed_applied u
                   then Some (r1\<lparr>processing_status := Completed, total_forms := n,
                                  processed_forms := n\<rparr>)
                   else Some r1)"
      by (simp add: db2 issue_update_row)
    then show ?thesis
      using after r1(2) res by (auto split: if_splits)
  qed
qed

text \<open>
  C10. When a run ends with the success response, the row of the job exists, its status
  is completed, and \<open>total_forms\<close> and \<open>processed_forms\<close> both hold the number of
  responses the run inserted for the job, which is also \<^verbatim>\<open>formsProcessed\<close>. Conversely a
  run that leaves the job completed ended with the success response, so a completed job
  has \<open>processed_forms = total_forms\<close>.
\<close>

theorem completed_counts_agree:
  "(handler env db = (db', Inr n) \<longrightarrow>
      (\<exists>row forms. course_uploads db' (req_uploadId env) = Some row
         \<and> processing_status row = Completed
         \<and> total_forms row = n \<and> processed_forms row = n
         \<and> survey_responses db' = survey_responses db @ map (Pair (req_uploadId env)) forms
         \<and> length forms = n))
   \<and> (req_uploadId env \<noteq> []
        \<and> course_uploads (fst (handler env db)) (req_uploadId env) = Some row'
        \<and> processing_status row' = Completed \<longrightarrow>
      total_forms row' = processed_forms row'
        \<and> snd (handler env db) = Inr (processed_forms row'))"
proof (rule conjI; rule impI)
  assume h: "handler env db = (db', Inr n)"
  from handler_result_cases [OF h] obtain upload doc where
    id: "req_uploadId env \<noteq> []" and ins: "\<not> insert_fails env" and
    fetch: "fetchDocument env (update_upload (req_uploadId env)
              (\<lambda>row. row\<lparr>processing_status := Processing\<rparr>) db) = Inr (upload, doc)"
    by blast
  define forms where "forms = (if extractForms env doc (upload_course_name upload) = []
                           then [placeholderForm (upload_course_name upload) (today env)]
                           else extractForms env doc (upload_course_name upload))"
  from handler_completed [OF id fetch ins forms_def] h
  have "n = length forms"
    and "survey_responses db' = survey_responses db @ map (Pair (req_uploadId env)) forms"
    and "course_uploads db' (req_uploadId env)
               = Some (upload\<lparr>processing_status := Completed, total_forms := length forms,
                                processed_forms := length forms\<rparr>)"
    by auto
  then show "\<exists>row forms. course_uploads db' (req_uploadId env) = Some row
         \<and> processing_status row = Completed
         \<and> total_forms row = n \<and> processed_forms row = n
         \<and> survey_responses db' = survey_responses db @ map (Pair (req_uploadId env)) forms
         \<and> length forms = n"
    by auto
next
  assume a: "req_uploadId env \<noteq> []
        \<and> course_uploads (fst (handler env db)) (req_uploadId env) = Some row'
        \<and> processing_status row' = Completed"
  show "total_forms row' = processed_forms row' \<and> snd (handler env db) = Inr (processed_forms row')"
  proof (cases "snd (handler env db)")
    case (Inl e)
    then have "processing_status row' = Failed"
      using a handler_failed_status by blast
    then show ?thesis using a by simp
  next
    case (Inr n)
    then have h: "handler env db = (fst (handler env db), Inr n)"
      by (metis prod.collapse)
    from handler_result_cases [OF h] obtain upload doc where
      id: "req_uploadId env \<noteq> []" and ins: "\<not> insert_fails env" and
      fetch: "fetchDocument env (update_upload (req_uploadId env)
                (\<lambda>row. row\<lparr>processing_status := Processing\<rparr>) db) = Inr (upload, doc)"
      by blast
    define forms where "forms = (if extractForms env doc (upload_course_name upload) = []
                           then [placeholderForm (upload_course_name upload) (today env)]
                           else extractForms env doc (upload_course_name upload))"
    from handler_completed [OF id fetch ins forms_def] h a
    have "n = length forms"
      and "row' = upload\<lparr>processing_status := Completed, total_forms := length forms,
                                processed_forms := length forms\<rparr>"
      by auto
    then show ?thesis using Inr by simp
  qed
qed

theorem completed_counts_agree_witness:
  "snd (handler
     \<lparr>req_uploadId = ''u1'', req_fileUrl = ''f'', select_fails = False, openai_api_key = [],
      storage_path = Some, download = Data \<lparr>structure_text = [], ocr_like_text = [],
      raw_text = []\<rparr>, llm = \<lparr>text_reply = NoContent, page_replies = None\<rparr>,
      insert_fails = False, today = ''2025-07-01'',
      text_fns = \<lparr>cleanAndNormalizeText = id, separators = []\<rparr>\<rparr>
     \<lparr>course_uploads = map_of [(''u1'', \<lparr>upload_course_name = ''Course'', file_url = ''f'',
        processing_status = Pending, total_forms = 0, processed_forms = 0\<rparr>)],
      survey_responses = []\<rparr>) = Inr 1
   \<and> course_uploads (fst (handler
     \<lparr>req_uploadId = ''u1'', req_fileUrl = ''f'', select_fails = False, openai_api_key = [],
      storage_path = Some, download = Data \<lparr>structure_text = [], ocr_like_text = [],
      raw_text = []\<rparr>, llm = \<lparr>text_reply = NoContent, page_replies = None\<rparr>,
      insert_fails = False, today = ''2025-07-01'',
      text_fns = \<lparr>cleanAndNormalizeText = id, separators = []\<rparr>\<rparr>
     \<lparr>course_uploads = map_of [(''u1'', \<lparr>upload_course_name = ''Course'', file_url = ''f'',
        processing_status = Pending, total_forms = 0, processed_forms = 0\<rparr>)],
      survey_responses = []\<rparr>)) ''u1''
     = Some \<lparr>upload_course_name = ''Course'', file_url = ''f'',
        processing_status = Completed, total_forms = 1, processed_forms = 1\<rparr>"
proof -
  let ?env = "\<lparr>req_uploadId = ''u1'', req_fileUrl = ''f'', select_fails = False, openai_api_key = [],
      storage_path = Some, download = Data \<lparr>structure_text = [], ocr_like_text = [],
      raw_text = []\<rparr>, llm = \<lparr>text_reply = NoContent, page_replies = None\<rparr>,
      insert_fails = False, today = ''2025-07-01'',
      text_fns = \<lparr>cleanAndNormalizeText = id, separators = []\<rparr>\<rparr>"
  let ?db = "\<lparr>course_uploads = map_of [(''u1'', \<lparr>upload_course_name = ''Course'', file_url = ''f'',
        processing_status = Pending, total_forms = 0, processed_forms = 0\<rparr>)],
      survey_responses = []\<rparr>"
  have run: "snd (handler ?env ?db) = Inr 1"
    by (simp add: handler_unfold handler_try_unfold fetchDocument_def extractForms_def
        processPDFWithTraditionalMethods_def update_upload_def Let_def)
  then have h: "handler ?env ?db = (fst (handler ?env ?db), Inr 1)"
    by (metis prod.collapse)
  have up: "course_uploads (fst (handler ?env ?db)) ''u1''
     = Some \<lparr>upload_course_name = ''Course'', file_url = ''f'',
        processing_status = Completed, total_forms = 1, processed_forms = 1\<rparr>"
    by (simp add: handler_unfold handler_try_unfold fetchDocument_def extractForms_def
        processPDFWithTraditionalMethods_def update_upload_def Let_def)
  from completed_counts_agree [of ?env ?db "fst (handler ?env ?db)" 1] h
  have "\<exists>row forms. course_uploads (fst (handler ?env ?db)) (req_uploadId ?env) = Some row
         \<and> processing_status row = Completed
         \<and> total_forms row = 1 \<and> processed_forms row = 1
         \<and> survey_responses (fst (handler ?env ?db))
             = survey_responses ?db @ map (Pair (req_uploadId ?env)) forms
         \<and> length forms = 1"
    by blast
  then show ?thesis using run up by blast
qed

subsection \<open>C6: the placeholder of an empty extraction\<close>


lemma fetchDocument_responses:
  "fetchDocument env (db\<lparr>survey_responses := rs\<rparr>) = fetchDocument env db"
  by (simp add: fetchDocument_def)





subsection \<open>C5: failures of the text variant\<close>

text \<open>
  C5. The text variant raises exactly when the request fails, the body cannot be read,
  the reply has no content, the content is not JSON, or the content is \<^verbatim>\<open>null\<close>. In
  each of these cases \<^const>\<open>processPDFWithOpenAI\<close> returns what the heuristic path
  returns, and the whole run is the run of the same request without an API key: the
  exception reaches nobody, and when the insertion succeeds the run ends with the
  success response.
\<close>

theorem text_variant_failure_falls_back:
  "(llmTextExtraction c reply = None \<longleftrightarrow>
      reply \<in> {FetchFailed, BodyUnreadable, NoContent, ContentNotJson, Content PNull})
   \<and> (\<not> usesVisionPath (raw_text doc) \<and> llmTextExtraction c (text_reply l) = None \<longrightarrow>
        processPDFWithOpenAI tf l doc c = processPDFWithTraditionalMethods tf doc c)
   \<and> (req_uploadId env \<noteq> []
        \<and> fetchDocument env (update_upload (req_uploadId env)
             (\<lambda>row. row\<lparr>processing_status := Processing\<rparr>) db) = Inr (upload, doc)
        \<and> \<not> usesVisionPath (raw_text doc)
        \<and> llmTextExtraction (upload_course_name upload) (text_reply (llm env)) = None \<longrightarrow>
        handler env db = handler (env\<lparr>openai_api_key := []\<rparr>) db
        \<and> (\<not> insert_fails env \<longrightarrow> (\<exists>db' n. handler env db = (db', Inr n))))"
proof (intro conjI impI)
  show "llmTextExtraction c reply = None \<longleftrightarrow>
      reply \<in> {FetchFailed, BodyUnreadable, NoContent, ContentNotJson, Content PNull}"
    by (auto simp: llmTextExtraction_def responsesOf_def
        split: text_reply.splits parsed.splits member.splits option.splits)
next
  assume "\<not> usesVisionPath (raw_text doc) \<and> llmTextExtraction c (text_reply l) = None"
  then show "processPDFWithOpenAI tf l doc c = processPDFWithTraditionalMethods tf doc c"
    by (simp add: processPDFWithOpenAI_def Let_def)
next
  assume a: "req_uploadId env \<noteq> []
        \<and> fetchDocument env (update_upload (req_uploadId env)
             (\<lambda>row. row\<lparr>processing_status := Processing\<rparr>) db) = Inr (upload, doc)
        \<and> \<not> usesVisionPath (raw_text doc)
        \<and> llmTextExtraction (upload_course_name upload) (text_reply (llm env)) = None"
  then have ex: "extractForms env doc (upload_course_name upload)
                   = extractForms (env\<lparr>openai_api_key := []\<rparr>) doc (upload_course_name upload)"
    by (simp add: extractForms_def processPDFWithOpenAI_def Let_def)
  have "handler_try env db1 = handler_try (env\<lparr>openai_api_key := []\<rparr>) db1"
    if "fetchDocument env db1 = Inr (upload, doc)" for db1
    using that ex by (simp add: handler_try_unfold Let_def)
  then have "handler_try env (update_upload (req_uploadId env)
                 (\<lambda>row. row\<lparr>processing_status := Processing\<rparr>) db)
             = handler_try (env\<lparr>openai_api_key := []\<rparr>) (update_upload (req_uploadId env)
                 (\<lambda>row. row\<lparr>processing_status := Processing\<rparr>) db)"
    using a by blast
  then show "handler env db = handler (env\<lparr>openai_api_key := []\<rparr>) db"
    by (simp add: handler_unfold Let_def split: sum.split)
next
  assume a: "req_uploadId env \<noteq> []
        \<and> fetchDocument env (update_upload (req_uploadId env)
             (\<lambda>row. row\<lparr>processing_status := Processing\<rparr>) db) = Inr (upload, doc)
        \<and> \<not> usesVisionPath (raw_text doc)
        \<and> llmTextExtraction (upload_course_name upload) (text_reply (llm env)) = None"
    and ins: "\<not> insert_fails env"
  from a have id: "req_uploadId env \<noteq> []"
    and fetch: "fetchDocument env (update_upload (req_uploadId env)
             (\<lambda>row. row\<lparr>processing_status := Processing\<rparr>) db) = Inr (upload, doc)"
    by simp_all
  from handler_completed [OF id fetch ins refl]
  show "\<exists>db' n. handler env db = (db', Inr n)" by blast
qed

theorem text_variant_failure_falls_back_witness:
  "handler
     \<lparr>req_uploadId = ''u1'', req_fileUrl = [], select_fails = False, openai_api_key = ''sk-1'',
      storage_path = Some, download = Data \<lparr>structure_text = [], ocr_like_text = [],
      raw_text = ''Course evaluation''\<rparr>, llm = \<lparr>text_reply = FetchFailed, page_replies = None\<rparr>,
      insert_fails = False, today = ''2025-07-01'',
      text_fns = \<lparr>cleanAndNormalizeText = id, separators = []\<rparr>\<rparr>
     \<lparr>course_uploads = map_of [(''u1'', \<lparr>upload_course_name = ''Course'', file_url = ''f'',
        processing_status = Pending, total_forms = 0, processed_forms = 0\<rparr>)],
      survey_responses = []\<rparr>
   = handler
     \<lparr>req_uploadId = ''u1'', req_fileUrl = [], select_fails = False, openai_api_key = [],
      storage_path = Some, download = Data \<lparr>structure_text = [], ocr_like_text = [],
      raw_text = ''Course evaluation''\<rparr>, llm = \<lparr>text_reply = FetchFailed, page_replies = None\<rparr>,
      insert_fails = False, today = ''2025-07-01'',
      text_fns = \<lparr>cleanAndNormalizeText = id, separators = []\<rparr>\<rparr>
     \<lparr>course_uploads = map_of [(''u1'', \<lparr>upload_course_name = ''Course'', file_url = ''f'',
        processing_status = Pending, total_forms = 0, processed_forms = 0\<rparr>)],
      survey_responses = []\<rparr>"
proof -
  let ?env = "\<lparr>req_uploadId = ''u1'', req_fileUrl = [], select_fails = False, openai_api_key = ''sk-1'',
      storage_path = Some, download = Data \<lparr>structure_text = [], ocr_like_text = [],
      raw_text = ''Course evaluation''\<rparr>, llm = \<lparr>text_reply = FetchFailed, page_replies = None\<rparr>,
      insert_fails = False, today = ''2025-07-01'',
      text_fns = \<lparr>cleanAndNormalizeText = id, separators = []\<rparr>\<rparr>"
  let ?db = "\<lparr>course_uploads = map_of [(''u1'', \<lparr>upload_course_name = ''Course'', file_url = ''f'',
        processing_status = Pending, total_forms = 0, processed_forms = 0\<rparr>)],
      survey_responses = []\<rparr>"
  let ?upload = "\<lparr>upload_course_name = ''Course'', file_url = ''f'',
        processing_status = Processing, total_forms = 0, processed_forms = 0\<rparr>"
  let ?doc = "\<lparr>structure_text = [], ocr_like_text = [], raw_text = ''Course evaluation''\<rparr>"
  have a: "req_uploadId ?env \<noteq> []" by simp
  have b: "fetchDocument ?env (update_upload (req_uploadId ?env)
             (\<lambda>row. row\<lparr>processing_status := Processing\<rparr>) ?db) = Inr (?upload, ?doc)"
    by (simp add: fetchDocument_def update_upload_def Let_def)
  have c: "\<not> usesVisionPath (raw_text ?doc)"
    by code_simp
  have d: "llmTextExtraction (upload_course_name ?upload) (text_reply (llm ?env)) = None"
    by (simp add: llmTextExtraction_def)
  from text_variant_failure_falls_back
         [of "''Course''" FetchFailed ?doc "llm ?env" "text_fns ?env" ?env ?db ?upload]
       a b c d
  have "handler ?env ?db = handler (?env\<lparr>openai_api_key := []\<rparr>) ?db"
    by blast
  then show ?thesis by simp
qed

end
